theory Spec2Isabelle
  imports Main "HOL-Library.Word"
begin

unbundle bit_operations_syntax

section \<open>Data model of the vkx layer\<close>

text \<open>
  The renderer is C on top of the Vulkan and SDL APIs. Driver objects are opaque handles;
  \<open>VK_NULL_HANDLE\<close> is the handle 0. C enumerations of the Vulkan headers become
  datatypes listing the members the program can meet; \<open>uint32_t\<close> is \<open>32 word\<close>.
\<close>

type_synonym handle = nat
type_synonym u32 = "32 word"

definition VK_NULL_HANDLE :: handle where
  "VK_NULL_HANDLE = 0"

definition VKX_FRAMES_IN_FLIGHT :: u32 where
  "VKX_FRAMES_IN_FLIGHT = 2"

definition VK_MAX_MEMORY_TYPES :: nat where
  "VK_MAX_MEMORY_TYPES = 32"

datatype VkResult =
    VK_SUCCESS
  | VK_NOT_READY
  | VK_TIMEOUT
  | VK_SUBOPTIMAL_KHR
  | VK_ERROR_OUT_OF_HOST_MEMORY
  | VK_ERROR_OUT_OF_DEVICE_MEMORY
  | VK_ERROR_DEVICE_LOST
  | VK_ERROR_SURFACE_LOST_KHR
  | VK_ERROR_OUT_OF_DATE_KHR
  | VK_ERROR_FULL_SCREEN_EXCLUSIVE_MODE_LOST_EXT

datatype VkFormat =
    VK_FORMAT_UNDEFINED
  | VK_FORMAT_R8G8B8A8_UNORM
  | VK_FORMAT_R8G8B8A8_SRGB
  | VK_FORMAT_B8G8R8A8_UNORM
  | VK_FORMAT_B8G8R8A8_SRGB
  | VK_FORMAT_D32_SFLOAT
  | VK_FORMAT_D32_SFLOAT_S8_UINT
  | VK_FORMAT_D24_UNORM_S8_UINT
  | VK_FORMAT_OTHER nat

datatype VkColorSpaceKHR =
    VK_COLOR_SPACE_SRGB_NONLINEAR_KHR
  | VK_COLOR_SPACE_OTHER nat

datatype VkPresentModeKHR =
    VK_PRESENT_MODE_IMMEDIATE_KHR
  | VK_PRESENT_MODE_MAILBOX_KHR
  | VK_PRESENT_MODE_FIFO_KHR
  | VK_PRESENT_MODE_FIFO_RELAXED_KHR

datatype VkImageLayout =
    VK_IMAGE_LAYOUT_UNDEFINED
  | VK_IMAGE_LAYOUT_GENERAL
  | VK_IMAGE_LAYOUT_COLOR_ATTACHMENT_OPTIMAL
  | VK_IMAGE_LAYOUT_DEPTH_STENCIL_ATTACHMENT_OPTIMAL
  | VK_IMAGE_LAYOUT_DEPTH_STENCIL_READ_ONLY_OPTIMAL
  | VK_IMAGE_LAYOUT_SHADER_READ_ONLY_OPTIMAL
  | VK_IMAGE_LAYOUT_TRANSFER_SRC_OPTIMAL
  | VK_IMAGE_LAYOUT_TRANSFER_DST_OPTIMAL
  | VK_IMAGE_LAYOUT_PREINITIALIZED
  | VK_IMAGE_LAYOUT_ATTACHMENT_OPTIMAL
  | VK_IMAGE_LAYOUT_PRESENT_SRC_KHR

datatype VkPipelineStageFlagBits =
    VK_PIPELINE_STAGE_TOP_OF_PIPE_BIT
  | VK_PIPELINE_STAGE_EARLY_FRAGMENT_TESTS_BIT
  | VK_PIPELINE_STAGE_FRAGMENT_SHADER_BIT
  | VK_PIPELINE_STAGE_COLOR_ATTACHMENT_OUTPUT_BIT
  | VK_PIPELINE_STAGE_TRANSFER_BIT
  | VK_PIPELINE_STAGE_BOTTOM_OF_PIPE_BIT

datatype VkAccessFlagBits =
    VK_ACCESS_SHADER_READ_BIT
  | VK_ACCESS_COLOR_ATTACHMENT_WRITE_BIT
  | VK_ACCESS_DEPTH_STENCIL_ATTACHMENT_READ_BIT
  | VK_ACCESS_DEPTH_STENCIL_ATTACHMENT_WRITE_BIT
  | VK_ACCESS_TRANSFER_WRITE_BIT
  | VK_ACCESS_MEMORY_READ_BIT

datatype VkImageAspectFlagBits =
    VK_IMAGE_ASPECT_COLOR_BIT
  | VK_IMAGE_ASPECT_DEPTH_BIT
  | VK_IMAGE_ASPECT_STENCIL_BIT

datatype VkImageTiling =
    VK_IMAGE_TILING_OPTIMAL
  | VK_IMAGE_TILING_LINEAR

datatype VkSharingMode =
    VK_SHARING_MODE_EXCLUSIVE
  | VK_SHARING_MODE_CONCURRENT

text \<open>
  Every \<open>exit(1)\<close> of the modelled functions is a value of \<open>fatal\<close>, named after the
  message printed before it. \<open>Blocked_on_fence\<close> is not an exit: it stands for
  \<open>vkWaitForFences\<close> with the timeout \<open>UINT64_MAX\<close> on a fence that was reset and
  never handed to a submission, a wait that does not return.
\<close>

datatype fatal =
    Failed_to_find_suitable_memory_type
  | Failed_to_find_supported_format
  | Unsupported_layout_transition VkImageLayout VkImageLayout
  | Failed_to_create_image
  | Failed_to_create_image_view
  | No_formats
  | No_present_modes
  | Failed_to_create_swap_chain
  | Failed_to_reset_command_buffer
  | Failed_to_begin_recording_command_buffer
  | Failed_to_record_command_buffer
  | Failed_to_submit_command_buffer
  | Failed_to_acquire_swap_chain_image VkResult
  | Failed_to_submit_draw_command_buffer
  | Failed_to_present_swap_chain_image VkResult
  | Blocked_on_fence

record VkxBuffer =
  buffer :: handle
  memory :: handle

record VkxImage =
  image :: handle
  image_memory :: handle
  view :: handle

record VkExtent2D =
  width :: u32
  height :: u32

record VkSurfaceFormatKHR =
  format :: VkFormat
  colorSpace :: VkColorSpaceKHR

record VkSurfaceCapabilitiesKHR =
  minImageCount :: u32
  maxImageCount :: u32
  currentExtent :: VkExtent2D
  minImageExtent :: VkExtent2D
  maxImageExtent :: VkExtent2D

record VkxSwapChainSupportDetails =
  capabilities :: VkSurfaceCapabilitiesKHR
  formats :: "VkSurfaceFormatKHR list"
  present_modes :: "VkPresentModeKHR list"

record VkxQueueFamilyIndices =
  graphics_family :: u32
  present_family :: u32

record VkMemoryType =
  propertyFlags :: u32

record VkPhysicalDeviceMemoryProperties =
  memoryTypeCount :: nat
  memoryTypes :: "VkMemoryType list"

record VkFormatProperties =
  linearTilingFeatures :: u32
  optimalTilingFeatures :: u32

record VkImageMemoryBarrier2 =
  srcStageMask :: "VkPipelineStageFlagBits set"
  srcAccessMask :: "VkAccessFlagBits set"
  dstStageMask :: "VkPipelineStageFlagBits set"
  dstAccessMask :: "VkAccessFlagBits set"
  oldLayout :: VkImageLayout
  newLayout :: VkImageLayout
  aspectMask :: "VkImageAspectFlagBits set"

record VkSwapchainCreateInfoKHR =
  ci_minImageCount :: u32
  ci_imageFormat :: VkFormat
  ci_imageColorSpace :: VkColorSpaceKHR
  ci_imageExtent :: VkExtent2D
  ci_imageSharingMode :: VkSharingMode
  ci_presentMode :: VkPresentModeKHR

record VkxSwapChain =
  swap_chain :: handle
  images_count :: nat
  images :: "handle list"
  image_views :: "handle list"
  image_format :: VkFormat
  extent :: VkExtent2D
  depth_image :: VkxImage
  has_depth_image :: bool

text \<open>
  The driver calls that change driver state, in the order the program makes them. The
  log is the observable behaviour of the program towards the driver.
\<close>

datatype call =
    VkWaitForFences nat
  | VkAcquireNextImageKHR handle nat
  | VkResetFences nat
  | VkResetCommandBuffer nat
  | VkBeginCommandBuffer nat
  | VkCmdPipelineBarrier2 VkImageMemoryBarrier2
  | VkCmdPipelineBarrier handle VkImageLayout VkImageLayout
  | VkCmdDrawingOffscreen nat
  | VkCmdDrawing nat nat
  | VkEndCommandBuffer nat
  | VkQueueSubmit nat "nat option"
  | VkQueuePresentKHR handle nat
  | VkQueueWaitIdle
  | VkDeviceWaitIdle
  | VkCreateSwapchainKHR VkSwapchainCreateInfoKHR
  | VkCreateImageView handle VkFormat VkImageAspectFlagBits
  | VkCreateImage u32 u32 VkFormat
  | VkAllocateMemory nat
  | VkBindImageMemory handle handle
  | VkSingleTimeBegin
  | VkSingleTimeSubmit
  | VkDestroyBuffer handle
  | VkDestroyImageView handle
  | VkDestroyImage handle
  | VkFreeMemory handle
  | VkDestroySwapchainKHR handle

section \<open>GPU resource allocator (vkx\_core.c)\<close>

subsection \<open>Memory-type selection\<close>

text \<open>
  \<open>vkx_find_memory_type\<close>: the loop over \<open>i < memoryTypeCount\<close> returns the first
  index whose bit is set in \<open>type_filter\<close> (\<open>type_filter & (1 << i)\<close>) and whose
  property flags contain all requested ones; falling out of the loop is the fatal exit.
  The table \<open>mem_properties\<close> is what \<open>vkGetPhysicalDeviceMemoryProperties\<close> reports.
\<close>

function find_memory_type_loop ::
  "VkPhysicalDeviceMemoryProperties \<Rightarrow> u32 \<Rightarrow> u32 \<Rightarrow> nat \<Rightarrow> fatal + nat" where
  "find_memory_type_loop mem_properties type_filter properties i =
     (if i < memoryTypeCount mem_properties then
        (if type_filter AND push_bit i 1 \<noteq> 0
            \<and> propertyFlags (memoryTypes mem_properties ! i) AND properties = properties
         then Inr i
         else find_memory_type_loop mem_properties type_filter properties (Suc i))
      else Inl Failed_to_find_suitable_memory_type)"
  by pat_completeness auto
termination
  by (relation "measure (\<lambda>(mp, tf, ps, i). memoryTypeCount mp - i)") auto

definition vkx_find_memory_type ::
  "VkPhysicalDeviceMemoryProperties \<Rightarrow> u32 \<Rightarrow> u32 \<Rightarrow> fatal + nat" where
  "vkx_find_memory_type mem_properties type_filter properties =
     find_memory_type_loop mem_properties type_filter properties 0"

text \<open>The table is a C array of \<open>VK_MAX_MEMORY_TYPES\<close> entries, of which the first
  \<open>memoryTypeCount\<close> are valid.\<close>

definition valid_memory_properties :: "VkPhysicalDeviceMemoryProperties \<Rightarrow> bool" where
  "valid_memory_properties mp \<longleftrightarrow>
     memoryTypeCount mp \<le> length (memoryTypes mp)
     \<and> length (memoryTypes mp) \<le> VK_MAX_MEMORY_TYPES"

text \<open>What the specification calls a suitable memory type.\<close>

definition suitable_memory_type ::
  "VkPhysicalDeviceMemoryProperties \<Rightarrow> u32 \<Rightarrow> u32 \<Rightarrow> nat \<Rightarrow> bool" where
  "suitable_memory_type mp type_filter properties i \<longleftrightarrow>
     bit type_filter i
     \<and> (\<forall>n. bit properties n \<longrightarrow> bit (propertyFlags (memoryTypes mp ! i)) n)"

subsection \<open>Buffer and image cleanup\<close>

text \<open>
  \<open>vkx_cleanup_buffer\<close> and \<open>vkx_cleanup_image\<close> take a pointer to the struct; the
  model returns the struct as it is left, with the driver calls made.
\<close>

definition vkx_cleanup_buffer :: "VkxBuffer \<Rightarrow> VkxBuffer \<times> call list" where
  "vkx_cleanup_buffer b =
     (b\<lparr>buffer := VK_NULL_HANDLE, memory := VK_NULL_HANDLE\<rparr>,
      [VkDestroyBuffer (buffer b), VkFreeMemory (memory b)])"

definition vkx_cleanup_image :: "VkxImage \<Rightarrow> VkxImage \<times> call list" where
  "vkx_cleanup_image img =
     (img\<lparr>image := VK_NULL_HANDLE, image_memory := VK_NULL_HANDLE, view := VK_NULL_HANDLE\<rparr>,
      (if view img \<noteq> VK_NULL_HANDLE then [VkDestroyImageView (view img)] else [])
      @ [VkDestroyImage (image img), VkFreeMemory (image_memory img)])"

subsection \<open>Layout transitions\<close>

fun vkx_has_stencil_component :: "VkFormat \<Rightarrow> bool" where
  "vkx_has_stencil_component VK_FORMAT_D32_SFLOAT_S8_UINT = True"
| "vkx_has_stencil_component VK_FORMAT_D24_UNORM_S8_UINT = True"
| "vkx_has_stencil_component _ = False"

definition transition_aspect_mask :: "VkFormat \<Rightarrow> VkImageLayout \<Rightarrow> VkImageAspectFlagBits set" where
  "transition_aspect_mask fmt new_layout =
     (if new_layout = VK_IMAGE_LAYOUT_DEPTH_STENCIL_ATTACHMENT_OPTIMAL then
        (if vkx_has_stencil_component fmt
         then {VK_IMAGE_ASPECT_DEPTH_BIT, VK_IMAGE_ASPECT_STENCIL_BIT}
         else {VK_IMAGE_ASPECT_DEPTH_BIT})
      else {VK_IMAGE_ASPECT_COLOR_BIT})"

text \<open>
  \<open>vkx_transition_image_layout\<close>: the chain of \<open>if\<close>/\<open>else if\<close> on the pair of
  layouts fills the stage and access masks; the final \<open>else\<close> is the fatal exit. The
  result is the barrier handed to \<open>vkCmdPipelineBarrier2\<close>.
\<close>

definition vkx_transition_image_layout ::
  "VkFormat \<Rightarrow> VkImageLayout \<Rightarrow> VkImageLayout \<Rightarrow> fatal + VkImageMemoryBarrier2" where
  "vkx_transition_image_layout fmt old_layout new_layout =
     (let barrier = \<lparr>srcStageMask = {}, srcAccessMask = {}, dstStageMask = {},
                      dstAccessMask = {}, oldLayout = old_layout, newLayout = new_layout,
                      aspectMask = transition_aspect_mask fmt new_layout\<rparr>
      in
      if old_layout = VK_IMAGE_LAYOUT_UNDEFINED
         \<and> new_layout = VK_IMAGE_LAYOUT_TRANSFER_DST_OPTIMAL then
        Inr (barrier\<lparr>srcStageMask := {VK_PIPELINE_STAGE_TOP_OF_PIPE_BIT},
                     srcAccessMask := {},
                     dstStageMask := {VK_PIPELINE_STAGE_TRANSFER_BIT},
                     dstAccessMask := {VK_ACCESS_TRANSFER_WRITE_BIT}\<rparr>)
      else if old_layout = VK_IMAGE_LAYOUT_UNDEFINED
         \<and> new_layout = VK_IMAGE_LAYOUT_SHADER_READ_ONLY_OPTIMAL then
        Inr (barrier\<lparr>srcStageMask := {VK_PIPELINE_STAGE_TOP_OF_PIPE_BIT},
                     srcAccessMask := {},
                     dstStageMask := {VK_PIPELINE_STAGE_TRANSFER_BIT},
                     dstAccessMask := {VK_ACCESS_TRANSFER_WRITE_BIT}\<rparr>)
      else if old_layout = VK_IMAGE_LAYOUT_UNDEFINED
         \<and> new_layout = VK_IMAGE_LAYOUT_DEPTH_STENCIL_ATTACHMENT_OPTIMAL then
        Inr (barrier\<lparr>srcAccessMask := {},
                     srcStageMask := {VK_PIPELINE_STAGE_TOP_OF_PIPE_BIT},
                     dstAccessMask := {VK_ACCESS_DEPTH_STENCIL_ATTACHMENT_READ_BIT,
                                       VK_ACCESS_DEPTH_STENCIL_ATTACHMENT_WRITE_BIT},
                     dstStageMask := {VK_PIPELINE_STAGE_EARLY_FRAGMENT_TESTS_BIT}\<rparr>)
      else if old_layout = VK_IMAGE_LAYOUT_TRANSFER_DST_OPTIMAL
         \<and> new_layout = VK_IMAGE_LAYOUT_SHADER_READ_ONLY_OPTIMAL then
        Inr (barrier\<lparr>srcAccessMask := {VK_ACCESS_TRANSFER_WRITE_BIT},
                     srcStageMask := {VK_PIPELINE_STAGE_TRANSFER_BIT},
                     dstAccessMask := {VK_ACCESS_SHADER_READ_BIT},
                     dstStageMask := {VK_PIPELINE_STAGE_FRAGMENT_SHADER_BIT}\<rparr>)
      else if old_layout = VK_IMAGE_LAYOUT_PRESENT_SRC_KHR
         \<and> new_layout = VK_IMAGE_LAYOUT_COLOR_ATTACHMENT_OPTIMAL then
        Inr (barrier\<lparr>srcStageMask := {VK_PIPELINE_STAGE_TOP_OF_PIPE_BIT},
                     srcAccessMask := {},
                     dstStageMask := {VK_PIPELINE_STAGE_COLOR_ATTACHMENT_OUTPUT_BIT},
                     dstAccessMask := {VK_ACCESS_COLOR_ATTACHMENT_WRITE_BIT}\<rparr>)
      else if old_layout = VK_IMAGE_LAYOUT_COLOR_ATTACHMENT_OPTIMAL
         \<and> new_layout = VK_IMAGE_LAYOUT_PRESENT_SRC_KHR then
        Inr (barrier\<lparr>srcStageMask := {VK_PIPELINE_STAGE_COLOR_ATTACHMENT_OUTPUT_BIT},
                     srcAccessMask := {VK_ACCESS_COLOR_ATTACHMENT_WRITE_BIT},
                     dstStageMask := {VK_PIPELINE_STAGE_BOTTOM_OF_PIPE_BIT},
                     dstAccessMask := {VK_ACCESS_MEMORY_READ_BIT}\<rparr>)
      else if old_layout = VK_IMAGE_LAYOUT_COLOR_ATTACHMENT_OPTIMAL
         \<and> new_layout = VK_IMAGE_LAYOUT_SHADER_READ_ONLY_OPTIMAL then
        Inr (barrier\<lparr>srcStageMask := {VK_PIPELINE_STAGE_TOP_OF_PIPE_BIT},
                     srcAccessMask := {},
                     dstStageMask := {VK_PIPELINE_STAGE_COLOR_ATTACHMENT_OUTPUT_BIT},
                     dstAccessMask := {VK_ACCESS_MEMORY_READ_BIT}\<rparr>)
      else if old_layout = VK_IMAGE_LAYOUT_SHADER_READ_ONLY_OPTIMAL
         \<and> new_layout = VK_IMAGE_LAYOUT_COLOR_ATTACHMENT_OPTIMAL then
        Inr (barrier\<lparr>srcStageMask := {VK_PIPELINE_STAGE_FRAGMENT_SHADER_BIT},
                     srcAccessMask := {VK_ACCESS_MEMORY_READ_BIT},
                     dstStageMask := {VK_PIPELINE_STAGE_COLOR_ATTACHMENT_OUTPUT_BIT},
                     dstAccessMask := {VK_ACCESS_COLOR_ATTACHMENT_WRITE_BIT}\<rparr>)
      else Inl (Unsupported_layout_transition old_layout new_layout))"

text \<open>The eight pairs of layouts the specification lists.\<close>

definition supported_transitions :: "(VkImageLayout \<times> VkImageLayout) set" where
  "supported_transitions =
     {(VK_IMAGE_LAYOUT_UNDEFINED, VK_IMAGE_LAYOUT_TRANSFER_DST_OPTIMAL),
      (VK_IMAGE_LAYOUT_UNDEFINED, VK_IMAGE_LAYOUT_SHADER_READ_ONLY_OPTIMAL),
      (VK_IMAGE_LAYOUT_UNDEFINED, VK_IMAGE_LAYOUT_DEPTH_STENCIL_ATTACHMENT_OPTIMAL),
      (VK_IMAGE_LAYOUT_TRANSFER_DST_OPTIMAL, VK_IMAGE_LAYOUT_SHADER_READ_ONLY_OPTIMAL),
      (VK_IMAGE_LAYOUT_PRESENT_SRC_KHR, VK_IMAGE_LAYOUT_COLOR_ATTACHMENT_OPTIMAL),
      (VK_IMAGE_LAYOUT_COLOR_ATTACHMENT_OPTIMAL, VK_IMAGE_LAYOUT_PRESENT_SRC_KHR),
      (VK_IMAGE_LAYOUT_COLOR_ATTACHMENT_OPTIMAL, VK_IMAGE_LAYOUT_SHADER_READ_ONLY_OPTIMAL),
      (VK_IMAGE_LAYOUT_SHADER_READ_ONLY_OPTIMAL, VK_IMAGE_LAYOUT_COLOR_ATTACHMENT_OPTIMAL)}"

subsection \<open>Depth format and image creation\<close>

text \<open>
  What the driver and the window system answer while a swapchain is (re)created: the
  surface support details, the window size of \<open>SDL_GetWindowSize\<close>, the queue families,
  and the result and new handle of every driver call whose failure the program checks.
\<close>

record driver =
  surface_support :: VkxSwapChainSupportDetails
  window_size :: "int \<times> int"
  queue_families :: VkxQueueFamilyIndices
  create_swapchain_result :: VkResult
  new_swapchain :: handle
  swapchain_images :: "handle list"
  reset_command_buffer_result :: VkResult
  begin_command_buffer_result :: VkResult
  end_command_buffer_result :: VkResult
  queue_submit_result :: VkResult
  create_image_view_result :: "handle \<Rightarrow> VkResult"
  new_image_view :: "handle \<Rightarrow> handle"
  format_properties :: "VkFormat \<Rightarrow> VkFormatProperties"
  create_image_result :: VkResult
  new_image :: handle
  image_memory_type_bits :: u32
  mem_properties :: VkPhysicalDeviceMemoryProperties
  allocate_memory_result :: VkResult
  new_memory :: handle
  single_time_end_result :: VkResult

definition VK_FORMAT_FEATURE_DEPTH_STENCIL_ATTACHMENT_BIT :: u32 where
  "VK_FORMAT_FEATURE_DEPTH_STENCIL_ATTACHMENT_BIT = 0x200"

definition VK_MEMORY_PROPERTY_DEVICE_LOCAL_BIT :: u32 where
  "VK_MEMORY_PROPERTY_DEVICE_LOCAL_BIT = 0x1"

fun vkx_find_supported_format ::
  "driver \<Rightarrow> VkFormat list \<Rightarrow> VkImageTiling \<Rightarrow> u32 \<Rightarrow> fatal + VkFormat" where
  "vkx_find_supported_format d [] tiling features = Inl Failed_to_find_supported_format"
| "vkx_find_supported_format d (c # candidates) tiling features =
     (let props = format_properties d c in
      if tiling = VK_IMAGE_TILING_LINEAR \<and> linearTilingFeatures props AND features = features
      then Inr c
      else if tiling = VK_IMAGE_TILING_OPTIMAL
              \<and> optimalTilingFeatures props AND features = features
      then Inr c
      else vkx_find_supported_format d candidates tiling features)"

definition vkx_find_depth_format :: "driver \<Rightarrow> fatal + VkFormat" where
  "vkx_find_depth_format d =
     vkx_find_supported_format d
       [VK_FORMAT_D32_SFLOAT, VK_FORMAT_D32_SFLOAT_S8_UINT, VK_FORMAT_D24_UNORM_S8_UINT]
       VK_IMAGE_TILING_OPTIMAL VK_FORMAT_FEATURE_DEPTH_STENCIL_ATTACHMENT_BIT"

definition vkx_create_image_view ::
  "driver \<Rightarrow> handle \<Rightarrow> VkFormat \<Rightarrow> VkImageAspectFlagBits \<Rightarrow> fatal + handle \<times> call list" where
  "vkx_create_image_view d img fmt aspect_flags =
     (if create_image_view_result d img \<noteq> VK_SUCCESS then Inl Failed_to_create_image_view
      else Inr (new_image_view d img, [VkCreateImageView img fmt aspect_flags]))"

text \<open>
  \<open>vkx_create_image\<close>: a failed \<open>vkAllocateMemory\<close> only prints a message (there is no
  exit on that branch); the image is then bound to the memory field as zero-initialised.
\<close>

definition vkx_create_image ::
  "driver \<Rightarrow> u32 \<Rightarrow> u32 \<Rightarrow> VkFormat \<Rightarrow> u32 \<Rightarrow> fatal + VkxImage \<times> call list" where
  "vkx_create_image d w h fmt properties =
     (if create_image_result d \<noteq> VK_SUCCESS then Inl Failed_to_create_image
      else case vkx_find_memory_type (mem_properties d) (image_memory_type_bits d) properties of
        Inl f \<Rightarrow> Inl f
      | Inr idx \<Rightarrow>
          (let mem = (if allocate_memory_result d = VK_SUCCESS then new_memory d
                      else VK_NULL_HANDLE)
           in Inr (\<lparr>image = new_image d, image_memory = mem, view = VK_NULL_HANDLE\<rparr>,
                   [VkCreateImage w h fmt, VkAllocateMemory idx,
                    VkBindImageMemory (new_image d) mem])))"

text \<open>
  \<open>vkx_transition_image_layout_tmp_buffer\<close>: a one-shot command buffer around one
  transition; \<open>vkx_end_single_time_commands\<close> exits when \<open>vkEndCommandBuffer\<close> fails.
\<close>

definition vkx_transition_image_layout_tmp_buffer ::
  "driver \<Rightarrow> VkFormat \<Rightarrow> VkImageLayout \<Rightarrow> VkImageLayout \<Rightarrow> fatal + call list" where
  "vkx_transition_image_layout_tmp_buffer d fmt old_layout new_layout =
     (case vkx_transition_image_layout fmt old_layout new_layout of
        Inl f \<Rightarrow> Inl f
      | Inr barrier \<Rightarrow>
          if single_time_end_result d \<noteq> VK_SUCCESS then Inl Failed_to_record_command_buffer
          else Inr [VkSingleTimeBegin, VkCmdPipelineBarrier2 barrier, VkSingleTimeSubmit])"

section \<open>Swapchain lifecycle (vkx\_swap\_chain.c)\<close>

definition vkx_choose_swap_extent :: "int \<times> int \<Rightarrow> VkSurfaceCapabilitiesKHR \<Rightarrow> VkExtent2D" where
  "vkx_choose_swap_extent window caps =
     (if width (currentExtent caps) \<noteq> 0xFFFFFFFF then currentExtent caps
      else
        (let w0 = word_of_int (fst window) :: u32;
             h0 = word_of_int (snd window) :: u32;
             w = (if w0 < width (minImageExtent caps) then width (minImageExtent caps)
                  else if w0 > width (maxImageExtent caps) then width (maxImageExtent caps)
                  else w0);
             h = (if h0 < height (minImageExtent caps) then height (minImageExtent caps)
                  else if h0 > height (maxImageExtent caps) then height (maxImageExtent caps)
                  else h0)
         in \<lparr>width = w, height = h\<rparr>))"

text \<open>Lines 60 to 67: the loop over the formats, leaving at the first preferred pair.\<close>

fun choose_surface_format_loop ::
  "VkSurfaceFormatKHR list \<Rightarrow> VkSurfaceFormatKHR \<Rightarrow> VkSurfaceFormatKHR" where
  "choose_surface_format_loop [] surface_format = surface_format"
| "choose_surface_format_loop (f # fs) surface_format =
     (if format f = VK_FORMAT_B8G8R8A8_SRGB \<and> colorSpace f = VK_COLOR_SPACE_SRGB_NONLINEAR_KHR
      then f
      else choose_surface_format_loop fs surface_format)"

definition choose_surface_format :: "VkSurfaceFormatKHR list \<Rightarrow> VkSurfaceFormatKHR" where
  "choose_surface_format fmts = choose_surface_format_loop fmts (fmts ! 0)"

text \<open>Lines 69 to 77: the loop over the present modes, leaving at the first MAILBOX.\<close>

fun choose_present_mode_loop :: "VkPresentModeKHR list \<Rightarrow> VkPresentModeKHR \<Rightarrow> VkPresentModeKHR" where
  "choose_present_mode_loop [] present_mode = present_mode"
| "choose_present_mode_loop (m # ms) present_mode =
     (if m = VK_PRESENT_MODE_MAILBOX_KHR then m else choose_present_mode_loop ms present_mode)"

definition choose_present_mode :: "VkPresentModeKHR list \<Rightarrow> VkPresentModeKHR" where
  "choose_present_mode modes = choose_present_mode_loop modes VK_PRESENT_MODE_FIFO_KHR"

text \<open>Lines 82 to 85: the requested image count, in \<open>uint32_t\<close> arithmetic.\<close>

definition choose_image_count :: "VkSurfaceCapabilitiesKHR \<Rightarrow> u32" where
  "choose_image_count caps =
     (let image_count = minImageCount caps + 1 in
      if maxImageCount caps > 0 \<and> image_count > maxImageCount caps then maxImageCount caps
      else image_count)"

text \<open>Lines 87 to 112: the structure handed to \<open>vkCreateSwapchainKHR\<close>.\<close>

definition swapchain_create_info :: "driver \<Rightarrow> VkSwapchainCreateInfoKHR" where
  "swapchain_create_info d =
     (let support = surface_support d;
          surface_format = choose_surface_format (formats support);
          indices = queue_families d
      in \<lparr>ci_minImageCount = choose_image_count (capabilities support),
          ci_imageFormat = format surface_format,
          ci_imageColorSpace = colorSpace surface_format,
          ci_imageExtent = vkx_choose_swap_extent (window_size d) (capabilities support),
          ci_imageSharingMode =
            (if graphics_family indices \<noteq> present_family indices
             then VK_SHARING_MODE_CONCURRENT else VK_SHARING_MODE_EXCLUSIVE),
          ci_presentMode = choose_present_mode (present_modes support)\<rparr>)"

fun create_image_views :: "driver \<Rightarrow> handle list \<Rightarrow> VkFormat \<Rightarrow> fatal + handle list" where
  "create_image_views d [] fmt = Inr []"
| "create_image_views d (img # imgs) fmt =
     (case vkx_create_image_view d img fmt VK_IMAGE_ASPECT_COLOR_BIT of
        Inl f \<Rightarrow> Inl f
      | Inr (v, cs) \<Rightarrow>
          (case create_image_views d imgs fmt of
             Inl f \<Rightarrow> Inl f
           | Inr vs \<Rightarrow> Inr (v # vs)))"

text \<open>Lines 210 to 233: the shared depth image, made when \<open>create_depth_image\<close> is set.\<close>

definition create_depth_resources :: "driver \<Rightarrow> VkExtent2D \<Rightarrow> fatal + VkxImage \<times> call list" where
  "create_depth_resources d ext =
     (case vkx_find_depth_format d of
        Inl f \<Rightarrow> Inl f
      | Inr depth_format \<Rightarrow>
          (case vkx_create_image d (width ext) (height ext) depth_format
                  VK_MEMORY_PROPERTY_DEVICE_LOCAL_BIT of
             Inl f \<Rightarrow> Inl f
           | Inr (img, cs1) \<Rightarrow>
               (case vkx_create_image_view d (image img) depth_format VK_IMAGE_ASPECT_DEPTH_BIT of
                  Inl f \<Rightarrow> Inl f
                | Inr (v, cs2) \<Rightarrow>
                    (case vkx_transition_image_layout_tmp_buffer d depth_format
                            VK_IMAGE_LAYOUT_UNDEFINED
                            VK_IMAGE_LAYOUT_DEPTH_STENCIL_ATTACHMENT_OPTIMAL of
                       Inl f \<Rightarrow> Inl f
                     | Inr cs3 \<Rightarrow> Inr (img\<lparr>view := v\<rparr>, cs1 @ cs2 @ cs3)))))"

text \<open>
  The global state of the program that the frame loop and the swapchain functions share:
  \<open>vkx_swap_chain\<close>, the in-flight fences of \<open>vkx_sync_objects\<close>, the globals of main.c,
  and the log of driver calls. A fence is signaled, unsignaled (reset, with no submission
  that would signal it) or pending (handed to a submission, signaled once the GPU ends).
\<close>

datatype fence = Signaled | Unsignaled | Pending

record world =
  vkx_swap_chain :: VkxSwapChain
  in_flight_fences :: "fence list"
  current_frame :: u32
  suboptimal_swapchain_count :: u32
  framebuffer_resized :: bool
  calls :: "call list"

definition vkx_create_swap_chain :: "driver \<Rightarrow> bool \<Rightarrow> world \<Rightarrow> fatal + world" where
  "vkx_create_swap_chain d create_depth_image s =
     (let swap_chain_support = surface_support d in
      if formats swap_chain_support = [] then Inl No_formats
      else if present_modes swap_chain_support = [] then Inl No_present_modes
      else
        (let create_info = swapchain_create_info d;
             ext = ci_imageExtent create_info;
             imgs = swapchain_images d
         in
         if create_swapchain_result d \<noteq> VK_SUCCESS then Inl Failed_to_create_swap_chain
         else if reset_command_buffer_result d \<noteq> VK_SUCCESS
           then Inl Failed_to_reset_command_buffer
         else if begin_command_buffer_result d \<noteq> VK_SUCCESS
           then Inl Failed_to_begin_recording_command_buffer
         else if end_command_buffer_result d \<noteq> VK_SUCCESS
           then Inl Failed_to_record_command_buffer
         else if queue_submit_result d \<noteq> VK_SUCCESS
           then Inl Failed_to_submit_command_buffer
         else
           (case create_image_views d imgs (ci_imageFormat create_info) of
              Inl f \<Rightarrow> Inl f
            | Inr views \<Rightarrow>
                (let cs = [VkCreateSwapchainKHR create_info, VkResetCommandBuffer 0,
                           VkBeginCommandBuffer 0]
                          @ map (\<lambda>img. VkCmdPipelineBarrier img VK_IMAGE_LAYOUT_UNDEFINED
                                          VK_IMAGE_LAYOUT_PRESENT_SRC_KHR) imgs
                          @ [VkEndCommandBuffer 0, VkQueueSubmit 0 None]
                          @ map (\<lambda>img. VkCreateImageView img (ci_imageFormat create_info)
                                          VK_IMAGE_ASPECT_COLOR_BIT) imgs
                          @ [VkQueueWaitIdle];
                     sc = (vkx_swap_chain s)
                            \<lparr>swap_chain := new_swapchain d,
                             images_count := length imgs,
                             images := imgs,
                             image_views := views,
                             image_format := ci_imageFormat create_info,
                             extent := ext,
                             has_depth_image := create_depth_image\<rparr>
                 in
                 if create_depth_image then
                   (case create_depth_resources d ext of
                      Inl f \<Rightarrow> Inl f
                    | Inr (depth, dcs) \<Rightarrow>
                        Inr (s\<lparr>vkx_swap_chain := sc\<lparr>depth_image := depth\<rparr>,
                               calls := calls s @ cs @ dcs\<rparr>))
                 else Inr (s\<lparr>vkx_swap_chain := sc, calls := calls s @ cs\<rparr>)))))"

definition vkx_cleanup_swap_chain :: "world \<Rightarrow> world" where
  "vkx_cleanup_swap_chain s =
     (let sc = vkx_swap_chain s;
          (depth, depth_calls) =
            (if has_depth_image sc then vkx_cleanup_image (depth_image sc)
             else (depth_image sc, []));
          view_calls = map (\<lambda>i. VkDestroyImageView (image_views sc ! i)) [0..<images_count sc]
      in s\<lparr>vkx_swap_chain :=
              sc\<lparr>depth_image := depth, image_views := [], images := [], images_count := 0\<rparr>,
            calls := calls s @ depth_calls @ view_calls
                     @ [VkDestroySwapchainKHR (swap_chain sc)]\<rparr>)"

definition vkx_recreate_swap_chain :: "driver \<Rightarrow> world \<Rightarrow> fatal + world" where
  "vkx_recreate_swap_chain d s =
     (let s1 = s\<lparr>calls := calls s @ [VkDeviceWaitIdle]\<rparr>;
          s2 = vkx_cleanup_swap_chain s1
      in vkx_create_swap_chain d (has_depth_image (vkx_swap_chain s2)) s2)"

section \<open>Frame synchronisation and submission (main.c)\<close>

definition SUBOPTIMAL_SWAPCHAIN_THRESHOLD :: u32 where
  "SUBOPTIMAL_SWAPCHAIN_THRESHOLD = 10"

text \<open>
  What the driver answers during one call of \<open>draw_frame\<close>: the results of acquire,
  of the two checked calls of \<open>record_command_buffer\<close>, of the submission and of present,
  and the answers to a swapchain recreation made in this frame.
\<close>

record frame_env =
  acquire_result :: VkResult
  acquired_image_index :: nat
  record_begin_result :: VkResult
  record_end_result :: VkResult
  draw_submit_result :: VkResult
  present_result :: VkResult
  recreate_driver :: driver

text \<open>
  \<open>record_command_buffer\<close>, in the order of the source: begin; the swapchain image from
  present source to color attachment; the offscreen image from shader read to color
  attachment; the first render pass (tiles and sprites, into the offscreen image of the
  slot), logged as \<open>VkCmdDrawingOffscreen\<close>; the offscreen image back to shader read; the
  second render pass (the blit into the swapchain image \<open>image_index\<close>), logged as
  \<open>VkCmdDrawing\<close>; the swapchain image back to present source; end. Each transition goes
  through \<open>vkx_transition_image_layout\<close> and exits where that exits.
\<close>

definition record_command_buffer :: "frame_env \<Rightarrow> nat \<Rightarrow> nat \<Rightarrow> world \<Rightarrow> fatal + world" where
  "record_command_buffer e cf image_index s =
     (let fmt = image_format (vkx_swap_chain s) in
      if record_begin_result e \<noteq> VK_SUCCESS then Inl Failed_to_begin_recording_command_buffer
      else
        case vkx_transition_image_layout fmt
               VK_IMAGE_LAYOUT_PRESENT_SRC_KHR VK_IMAGE_LAYOUT_COLOR_ATTACHMENT_OPTIMAL of
          Inl f \<Rightarrow> Inl f
        | Inr b1 \<Rightarrow>
        case vkx_transition_image_layout fmt
               VK_IMAGE_LAYOUT_SHADER_READ_ONLY_OPTIMAL VK_IMAGE_LAYOUT_COLOR_ATTACHMENT_OPTIMAL of
          Inl f \<Rightarrow> Inl f
        | Inr b2 \<Rightarrow>
        case vkx_transition_image_layout fmt
               VK_IMAGE_LAYOUT_COLOR_ATTACHMENT_OPTIMAL VK_IMAGE_LAYOUT_SHADER_READ_ONLY_OPTIMAL of
          Inl f \<Rightarrow> Inl f
        | Inr b3 \<Rightarrow>
        case vkx_transition_image_layout fmt
               VK_IMAGE_LAYOUT_COLOR_ATTACHMENT_OPTIMAL VK_IMAGE_LAYOUT_PRESENT_SRC_KHR of
          Inl f \<Rightarrow> Inl f
        | Inr b4 \<Rightarrow>
          if record_end_result e \<noteq> VK_SUCCESS then Inl Failed_to_record_command_buffer
          else Inr (s\<lparr>calls := calls s @
                      [VkBeginCommandBuffer cf,
                       VkCmdPipelineBarrier2 b1,
                       VkCmdPipelineBarrier2 b2,
                       VkCmdDrawingOffscreen cf,
                       VkCmdPipelineBarrier2 b3,
                       VkCmdDrawing cf image_index,
                       VkCmdPipelineBarrier2 b4,
                       VkEndCommandBuffer cf]\<rparr>))"

text \<open>Lines 929 to 938 of \<open>draw_frame\<close>: the debounce counter after a present result.\<close>

definition count_after_present :: "VkResult \<Rightarrow> u32 \<Rightarrow> u32" where
  "count_after_present result c = (if result = VK_SUBOPTIMAL_KHR then c + 1 else 0)"

text \<open>Lines 940 to 957 of \<open>draw_frame\<close>: what follows from the present result.\<close>

definition present_result_handling :: "driver \<Rightarrow> VkResult \<Rightarrow> world \<Rightarrow> fatal + world" where
  "present_result_handling d result s =
     (if framebuffer_resized s then
        vkx_recreate_swap_chain d (s\<lparr>framebuffer_resized := False\<rparr>)
      else if suboptimal_swapchain_count s \<ge> SUBOPTIMAL_SWAPCHAIN_THRESHOLD then
        vkx_recreate_swap_chain d (s\<lparr>suboptimal_swapchain_count := 0\<rparr>)
      else if result = VK_ERROR_OUT_OF_DATE_KHR then
        vkx_recreate_swap_chain d s
      else if result \<noteq> VK_SUBOPTIMAL_KHR \<and> result \<noteq> VK_SUCCESS then
        Inl (Failed_to_present_swap_chain_image result)
      else Inr s)"

text \<open>
  \<open>draw_frame\<close>. \<open>vkWaitForFences\<close> has the timeout \<open>UINT64_MAX\<close>: it returns once the
  fence of the slot is signaled, which a pending fence becomes and an unsignaled one never
  does. \<open>vkResetFences\<close> leaves the fence unsignaled and \<open>vkQueueSubmit\<close> makes it pending.
  The function is modelled in three consecutive blocks: \<open>frame_until_present\<close> is lines
  851 to 938 (uniform update, fence reset, recording, submission, present and the counter
  update), \<open>present_result_handling\<close> is lines 940 to 957, and \<open>draw_frame\<close> itself holds
  the wait, the acquire with its result check (lines 837 to 849) and the counter advance
  of line 959.
\<close>

definition frame_until_present :: "frame_env \<Rightarrow> world \<Rightarrow> fatal + world" where
  "frame_until_present e s1 =
     (let cf = unat (current_frame s1);
          s2 = s1\<lparr>in_flight_fences := (in_flight_fences s1)[cf := Unsignaled],
                  calls := calls s1 @ [VkResetFences cf, VkResetCommandBuffer cf]\<rparr>
      in
      case record_command_buffer e cf (acquired_image_index e) s2 of
        Inl f \<Rightarrow> Inl f
      | Inr s3 \<Rightarrow>
          if draw_submit_result e \<noteq> VK_SUCCESS
          then Inl Failed_to_submit_draw_command_buffer
          else
            (let s4 = s3\<lparr>in_flight_fences := (in_flight_fences s3)[cf := Pending],
                        calls := calls s3 @ [VkQueueSubmit cf (Some cf),
                           VkQueuePresentKHR (swap_chain (vkx_swap_chain s3))
                             (acquired_image_index e)]\<rparr>;
                 result = present_result e
             in Inr (s4\<lparr>suboptimal_swapchain_count :=
                          count_after_present result (suboptimal_swapchain_count s4)\<rparr>)))"

text \<open>Lines 837 to 840: the state once the wait and the acquire have returned.\<close>

definition wait_and_acquire :: "world \<Rightarrow> world" where
  "wait_and_acquire s =
     (let cf = unat (current_frame s) in
      s\<lparr>in_flight_fences := (in_flight_fences s)[cf := Signaled],
        calls := calls s @ [VkWaitForFences cf,
                   VkAcquireNextImageKHR (swap_chain (vkx_swap_chain s)) cf]\<rparr>)"

definition draw_frame :: "frame_env \<Rightarrow> world \<Rightarrow> fatal + world" where
  "draw_frame e s =
     (let cf = unat (current_frame s) in
      if in_flight_fences s ! cf = Unsignaled then Inl Blocked_on_fence
      else
        (let s1 = wait_and_acquire s;
             result = acquire_result e
         in
         if result = VK_ERROR_OUT_OF_DATE_KHR then
           vkx_recreate_swap_chain (recreate_driver e) s1
         else if result \<noteq> VK_SUCCESS \<and> result \<noteq> VK_SUBOPTIMAL_KHR then
           Inl (Failed_to_acquire_swap_chain_image result)
         else
           (case frame_until_present e s1 of
              Inl f \<Rightarrow> Inl f
            | Inr s5 \<Rightarrow>
                (case present_result_handling (recreate_driver e) (present_result e) s5 of
                   Inl f \<Rightarrow> Inl f
                 | Inr s6 \<Rightarrow>
                     Inr (s6\<lparr>current_frame :=
                               (current_frame s6 + 1) mod VKX_FRAMES_IN_FLIGHT\<rparr>)))))"

section \<open>Reading the call log\<close>

text \<open>
  Three kinds of driver calls: destroying objects of a swapchain; the work of one frame
  (fence reset, draw recording, the fenced submission, present); and the rest. A
  recreation is the only place that calls \<open>vkDeviceWaitIdle\<close>, once, so the number of
  recreations in a stretch of the log is the number of these calls.
\<close>

fun swapchain_destroy_call :: "call \<Rightarrow> bool" where
  "swapchain_destroy_call (VkDestroyImageView _) = True"
| "swapchain_destroy_call (VkDestroyImage _) = True"
| "swapchain_destroy_call (VkFreeMemory _) = True"
| "swapchain_destroy_call (VkDestroySwapchainKHR _) = True"
| "swapchain_destroy_call _ = False"

fun frame_work_call :: "call \<Rightarrow> bool" where
  "frame_work_call (VkResetFences _) = True"
| "frame_work_call (VkCmdDrawingOffscreen _) = True"
| "frame_work_call (VkCmdDrawing _ _) = True"
| "frame_work_call (VkQueueSubmit _ (Some _)) = True"
| "frame_work_call (VkQueuePresentKHR _ _) = True"
| "frame_work_call _ = False"

definition creation_call :: "call \<Rightarrow> bool" where
  "creation_call c \<longleftrightarrow>
     \<not> swapchain_destroy_call c \<and> \<not> frame_work_call c \<and> c \<noteq> VkDeviceWaitIdle"

definition new_calls :: "world \<Rightarrow> world \<Rightarrow> call list" where
  "new_calls s s' = drop (length (calls s)) (calls s')"

definition recreations :: "call list \<Rightarrow> nat" where
  "recreations cs = count_list cs VkDeviceWaitIdle"

section \<open>Concrete inputs\<close>

text \<open>Small concrete inputs on which the theorems below are instantiated.\<close>

definition example_memory_properties :: VkPhysicalDeviceMemoryProperties where
  "example_memory_properties =
     \<lparr>memoryTypeCount = 3,
      memoryTypes = [\<lparr>propertyFlags = 7\<rparr>, \<lparr>propertyFlags = 2\<rparr>, \<lparr>propertyFlags = 6\<rparr>]\<rparr>"


definition example_driver :: driver where
  "example_driver =
     \<lparr>surface_support =
        \<lparr>capabilities =
           \<lparr>minImageCount = 2, maxImageCount = 0,
            currentExtent = \<lparr>width = 800, height = 600\<rparr>,
            minImageExtent = \<lparr>width = 1, height = 1\<rparr>,
            maxImageExtent = \<lparr>width = 4096, height = 4096\<rparr>\<rparr>,
         formats =
           [\<lparr>format = VK_FORMAT_B8G8R8A8_SRGB, colorSpace = VK_COLOR_SPACE_SRGB_NONLINEAR_KHR\<rparr>,
            \<lparr>format = VK_FORMAT_R8G8B8A8_UNORM, colorSpace = VK_COLOR_SPACE_SRGB_NONLINEAR_KHR\<rparr>],
         present_modes = [VK_PRESENT_MODE_FIFO_KHR, VK_PRESENT_MODE_MAILBOX_KHR]\<rparr>,
      window_size = (800, 600),
      queue_families = \<lparr>graphics_family = 0, present_family = 0\<rparr>,
      create_swapchain_result = VK_SUCCESS,
      new_swapchain = 7,
      swapchain_images = [11, 12, 13],
      reset_command_buffer_result = VK_SUCCESS,
      begin_command_buffer_result = VK_SUCCESS,
      end_command_buffer_result = VK_SUCCESS,
      queue_submit_result = VK_SUCCESS,
      create_image_view_result = (\<lambda>img. VK_SUCCESS),
      new_image_view = (\<lambda>img. img + 10),
      format_properties = (\<lambda>fmt. \<lparr>linearTilingFeatures = 0, optimalTilingFeatures = 0x200\<rparr>),
      create_image_result = VK_SUCCESS,
      new_image = 31,
      image_memory_type_bits = 6,
      mem_properties = example_memory_properties,
      allocate_memory_result = VK_SUCCESS,
      new_memory = 32,
      single_time_end_result = VK_SUCCESS\<rparr>"

definition example_world :: world where
  "example_world =
     \<lparr>vkx_swap_chain =
        \<lparr>swap_chain = 3, images_count = 2, images = [4, 5], image_views = [14, 15],
         image_format = VK_FORMAT_B8G8R8A8_SRGB,
         extent = \<lparr>width = 640, height = 480\<rparr>,
         depth_image = \<lparr>image = 0, image_memory = 0, view = 0\<rparr>,
         has_depth_image = False\<rparr>,
      in_flight_fences = [Signaled, Pending],
      current_frame = 0,
      suboptimal_swapchain_count = 3,
      framebuffer_resized = False,
      calls = []\<rparr>"

definition example_frame :: frame_env where
  "example_frame =
     \<lparr>acquire_result = VK_SUCCESS,
      acquired_image_index = 1,
      record_begin_result = VK_SUCCESS,
      record_end_result = VK_SUCCESS,
      draw_submit_result = VK_SUCCESS,
      present_result = VK_SUCCESS,
      recreate_driver = example_driver\<rparr>"

definition example_fallback_driver :: driver where
  "example_fallback_driver =
     example_driver
       \<lparr>surface_support :=
          \<lparr>capabilities =
             \<lparr>minImageCount = 2, maxImageCount = 2,
              currentExtent = \<lparr>width = 0xFFFFFFFF, height = 0xFFFFFFFF\<rparr>,
              minImageExtent = \<lparr>width = 1, height = 1\<rparr>,
              maxImageExtent = \<lparr>width = 4096, height = 4096\<rparr>\<rparr>,
           formats =
             [\<lparr>format = VK_FORMAT_R8G8B8A8_UNORM,
               colorSpace = VK_COLOR_SPACE_SRGB_NONLINEAR_KHR\<rparr>],
           present_modes = [VK_PRESENT_MODE_FIFO_KHR]\<rparr>\<rparr>"

definition example_world_recreated :: world where
  "example_world_recreated =
     \<lparr>vkx_swap_chain =
        \<lparr>swap_chain = 7, images_count = 3, images = [11, 12, 13], image_views = [21, 22, 23],
         image_format = VK_FORMAT_B8G8R8A8_SRGB,
         extent = \<lparr>width = 800, height = 600\<rparr>,
         depth_image = \<lparr>image = 0, image_memory = 0, view = 0\<rparr>,
         has_depth_image = False\<rparr>,
      in_flight_fences = [Signaled, Pending],
      current_frame = 0,
      suboptimal_swapchain_count = 3,
      framebuffer_resized = False,
      calls =
        [VkDeviceWaitIdle, VkDestroyImageView 14, VkDestroyImageView 15,
         VkDestroySwapchainKHR 3,
         VkCreateSwapchainKHR
           \<lparr>ci_minImageCount = 3, ci_imageFormat = VK_FORMAT_B8G8R8A8_SRGB,
            ci_imageColorSpace = VK_COLOR_SPACE_SRGB_NONLINEAR_KHR,
            ci_imageExtent = \<lparr>width = 800, height = 600\<rparr>,
            ci_imageSharingMode = VK_SHARING_MODE_EXCLUSIVE,
            ci_presentMode = VK_PRESENT_MODE_MAILBOX_KHR\<rparr>,
         VkResetCommandBuffer 0, VkBeginCommandBuffer 0,
         VkCmdPipelineBarrier 11 VK_IMAGE_LAYOUT_UNDEFINED VK_IMAGE_LAYOUT_PRESENT_SRC_KHR,
         VkCmdPipelineBarrier 12 VK_IMAGE_LAYOUT_UNDEFINED VK_IMAGE_LAYOUT_PRESENT_SRC_KHR,
         VkCmdPipelineBarrier 13 VK_IMAGE_LAYOUT_UNDEFINED VK_IMAGE_LAYOUT_PRESENT_SRC_KHR,
         VkEndCommandBuffer 0, VkQueueSubmit 0 None,
         VkCreateImageView 11 VK_FORMAT_B8G8R8A8_SRGB VK_IMAGE_ASPECT_COLOR_BIT,
         VkCreateImageView 12 VK_FORMAT_B8G8R8A8_SRGB VK_IMAGE_ASPECT_COLOR_BIT,
         VkCreateImageView 13 VK_FORMAT_B8G8R8A8_SRGB VK_IMAGE_ASPECT_COLOR_BIT,
         VkQueueWaitIdle]\<rparr>"

definition example_stale_frame :: frame_env where
  "example_stale_frame = example_frame\<lparr>acquire_result := VK_ERROR_OUT_OF_DATE_KHR\<rparr>"

definition example_suboptimal_frame :: frame_env where
  "example_suboptimal_frame = example_frame\<lparr>present_result := VK_SUBOPTIMAL_KHR\<rparr>"

definition example_resized_world :: world where
  "example_resized_world = example_world\<lparr>framebuffer_resized := True\<rparr>"

definition example_threshold_world :: world where
  "example_threshold_world = example_world\<lparr>suboptimal_swapchain_count := 10\<rparr>"

definition example_suboptimal_acquire_frame :: frame_env where
  "example_suboptimal_acquire_frame = example_frame\<lparr>acquire_result := VK_SUBOPTIMAL_KHR\<rparr>"

definition example_lost_frame :: frame_env where
  "example_lost_frame = example_frame\<lparr>acquire_result := VK_ERROR_DEVICE_LOST\<rparr>"

definition example_nine_world :: world where
  "example_nine_world = example_world\<lparr>suboptimal_swapchain_count := 9\<rparr>"

definition example_depth_driver :: driver where
  "example_depth_driver = example_driver\<lparr>image_memory_type_bits := 7\<rparr>"

definition example_depth_world :: world where
  "example_depth_world =
     example_world
       \<lparr>vkx_swap_chain :=
          \<lparr>swap_chain = 3, images_count = 2, images = [4, 5], image_views = [14, 15],
           image_format = VK_FORMAT_B8G8R8A8_SRGB,
           extent = \<lparr>width = 640, height = 480\<rparr>,
           depth_image = \<lparr>image = 40, image_memory = 41, view = 42\<rparr>,
           has_depth_image = True\<rparr>\<rparr>"

definition example_any_extent_driver :: driver where
  "example_any_extent_driver =
     example_driver
       \<lparr>surface_support :=
          \<lparr>capabilities =
             \<lparr>minImageCount = 2, maxImageCount = 0,
              currentExtent = \<lparr>width = 0xFFFFFFFF, height = 0xFFFFFFFF\<rparr>,
              minImageExtent = \<lparr>width = 1, height = 1\<rparr>,
              maxImageExtent = \<lparr>width = 4096, height = 4096\<rparr>\<rparr>,
           formats =
             [\<lparr>format = VK_FORMAT_B8G8R8A8_SRGB,
               colorSpace = VK_COLOR_SPACE_SRGB_NONLINEAR_KHR\<rparr>],
           present_modes = [VK_PRESENT_MODE_FIFO_KHR]\<rparr>\<rparr>"

definition example_any_extent_driver_resized :: driver where
  "example_any_extent_driver_resized =
     example_any_extent_driver
       \<lparr>window_size := (1024, 768), swapchain_images := [11, 12, 13, 14]\<rparr>"

section \<open>Facts about swapchain creation, cleanup and recreation\<close>

lemma create_image_views_length:
  "create_image_views d imgs fmt = Inr vs \<Longrightarrow> length vs = length imgs"
  by (induction imgs arbitrary: vs) (auto split: sum.splits prod.splits)

lemma create_depth_resources_calls:
  "create_depth_resources d ext = Inr (img, cs) \<Longrightarrow> \<forall>c\<in>set cs. creation_call c"
  by (auto simp: create_depth_resources_def vkx_create_image_def vkx_create_image_view_def
      vkx_transition_image_layout_tmp_buffer_def creation_call_def Let_def
      split: sum.splits prod.splits if_splits)

lemma vkx_create_swap_chain_Inr:
  assumes "vkx_create_swap_chain d b s = Inr s'"
  shows "formats (surface_support d) \<noteq> []"
    and "present_modes (surface_support d) \<noteq> []"
    and "image_format (vkx_swap_chain s') = ci_imageFormat (swapchain_create_info d)"
    and "extent (vkx_swap_chain s') = ci_imageExtent (swapchain_create_info d)"
    and "images_count (vkx_swap_chain s') = length (swapchain_images d)"
    and "images (vkx_swap_chain s') = swapchain_images d"
    and "length (image_views (vkx_swap_chain s')) = length (swapchain_images d)"
    and "has_depth_image (vkx_swap_chain s') = b"
    and "swap_chain (vkx_swap_chain s') = new_swapchain d"
  using assms
  by (auto simp: vkx_create_swap_chain_def Let_def create_image_views_length
      split: if_splits sum.splits prod.splits)

lemma vkx_create_swap_chain_frame:
  assumes "vkx_create_swap_chain d b s = Inr s'"
  shows "in_flight_fences s' = in_flight_fences s"
    and "current_frame s' = current_frame s"
    and "suboptimal_swapchain_count s' = suboptimal_swapchain_count s"
    and "framebuffer_resized s' = framebuffer_resized s"
  using assms
  by (auto simp: vkx_create_swap_chain_def Let_def
      split: if_splits sum.splits prod.splits)

lemma vkx_create_swap_chain_calls:
  assumes "vkx_create_swap_chain d b s = Inr s'"
  shows "\<exists>cs. calls s' = calls s @ VkCreateSwapchainKHR (swapchain_create_info d) # cs
            \<and> (\<forall>c\<in>set cs. creation_call c)"
  using assms
  by (auto simp: vkx_create_swap_chain_def Let_def creation_call_def
      dest!: create_depth_resources_calls
      split: if_splits sum.splits prod.splits)

lemma vkx_create_swap_chain_isl:
  "isl (vkx_create_swap_chain d b s) = isl (vkx_create_swap_chain d b t)"
  by (simp add: vkx_create_swap_chain_def Let_def
      split: if_splits sum.splits prod.splits)

lemma vkx_cleanup_swap_chain_frame:
  "in_flight_fences (vkx_cleanup_swap_chain s) = in_flight_fences s"
  "current_frame (vkx_cleanup_swap_chain s) = current_frame s"
  "suboptimal_swapchain_count (vkx_cleanup_swap_chain s) = suboptimal_swapchain_count s"
  "framebuffer_resized (vkx_cleanup_swap_chain s) = framebuffer_resized s"
  "has_depth_image (vkx_swap_chain (vkx_cleanup_swap_chain s)) = has_depth_image (vkx_swap_chain s)"
  by (simp_all add: vkx_cleanup_swap_chain_def Let_def split: prod.splits)

lemma vkx_cleanup_swap_chain_calls:
  "\<exists>ds. calls (vkx_cleanup_swap_chain s)
          = calls s @ ds @ [VkDestroySwapchainKHR (swap_chain (vkx_swap_chain s))]
        \<and> (\<forall>c\<in>set ds. swapchain_destroy_call c)
        \<and> (\<forall>i<images_count (vkx_swap_chain s).
              VkDestroyImageView (image_views (vkx_swap_chain s) ! i) \<in> set ds)"
  by (auto simp: vkx_cleanup_swap_chain_def Let_def vkx_cleanup_image_def
      split: prod.splits if_splits)

lemma vkx_recreate_swap_chain_unfold:
  "vkx_recreate_swap_chain d s =
     vkx_create_swap_chain d (has_depth_image (vkx_swap_chain s))
       (vkx_cleanup_swap_chain (s\<lparr>calls := calls s @ [VkDeviceWaitIdle]\<rparr>))"
  by (simp add: vkx_recreate_swap_chain_def Let_def vkx_cleanup_swap_chain_frame)

lemma vkx_recreate_swap_chain_frame:
  assumes "vkx_recreate_swap_chain d s = Inr s'"
  shows "in_flight_fences s' = in_flight_fences s"
    and "current_frame s' = current_frame s"
    and "suboptimal_swapchain_count s' = suboptimal_swapchain_count s"
    and "framebuffer_resized s' = framebuffer_resized s"
    and "has_depth_image (vkx_swap_chain s') = has_depth_image (vkx_swap_chain s)"
  using assms vkx_create_swap_chain_frame [OF assms [unfolded vkx_recreate_swap_chain_unfold]]
    vkx_create_swap_chain_Inr(8) [OF assms [unfolded vkx_recreate_swap_chain_unfold]]
  by (simp_all add: vkx_cleanup_swap_chain_frame)

lemma vkx_recreate_swap_chain_calls:
  assumes "vkx_recreate_swap_chain d s = Inr s'"
  shows "\<exists>ds cs. calls s' = calls s @ [VkDeviceWaitIdle] @ ds
              @ [VkDestroySwapchainKHR (swap_chain (vkx_swap_chain s)),
                 VkCreateSwapchainKHR (swapchain_create_info d)] @ cs
            \<and> (\<forall>c\<in>set ds. swapchain_destroy_call c)
            \<and> (\<forall>i<images_count (vkx_swap_chain s).
                  VkDestroyImageView (image_views (vkx_swap_chain s) ! i) \<in> set ds)
            \<and> (\<forall>c\<in>set cs. creation_call c)"
proof -
  let ?s1 = "s\<lparr>calls := calls s @ [VkDeviceWaitIdle]\<rparr>"
  from vkx_cleanup_swap_chain_calls [of ?s1]
  obtain ds where ds: "calls (vkx_cleanup_swap_chain ?s1)
        = calls s @ [VkDeviceWaitIdle] @ ds @ [VkDestroySwapchainKHR (swap_chain (vkx_swap_chain s))]"
      "\<forall>c\<in>set ds. swapchain_destroy_call c"
      "\<forall>i<images_count (vkx_swap_chain s).
         VkDestroyImageView (image_views (vkx_swap_chain s) ! i) \<in> set ds"
    by auto
  from vkx_create_swap_chain_calls [OF assms [unfolded vkx_recreate_swap_chain_unfold]]
  obtain cs where cs: "calls s' = calls (vkx_cleanup_swap_chain ?s1)
        @ VkCreateSwapchainKHR (swapchain_create_info d) # cs"
      "\<forall>c\<in>set cs. creation_call c"
    by auto
  from ds cs show ?thesis by auto
qed

lemma recreations_of_recreate:
  assumes "vkx_recreate_swap_chain d s = Inr s'"
  shows "\<exists>cs. calls s' = calls s @ cs \<and> recreations cs = 1
           \<and> (\<forall>c\<in>set cs. \<not> frame_work_call c)"
proof -
  from vkx_recreate_swap_chain_calls [OF assms]
  obtain ds cs where c: "calls s' = calls s @ [VkDeviceWaitIdle] @ ds
              @ [VkDestroySwapchainKHR (swap_chain (vkx_swap_chain s)),
                 VkCreateSwapchainKHR (swapchain_create_info d)] @ cs"
     and ds: "\<forall>c\<in>set ds. swapchain_destroy_call c"
     and cs: "\<forall>c\<in>set cs. creation_call c"
    by blast
  have nds: "VkDeviceWaitIdle \<notin> set ds" using ds by auto
  have ncs: "VkDeviceWaitIdle \<notin> set cs" using cs by (auto simp: creation_call_def)
  have fds: "\<forall>c\<in>set ds. \<not> frame_work_call c"
  proof
    fix c assume "c \<in> set ds"
    with ds have "swapchain_destroy_call c" by simp
    then show "\<not> frame_work_call c" by (cases c) simp_all
  qed
  let ?new = "[VkDeviceWaitIdle] @ ds
              @ [VkDestroySwapchainKHR (swap_chain (vkx_swap_chain s)),
                 VkCreateSwapchainKHR (swapchain_create_info d)] @ cs"
  have "recreations ?new = 1"
    using nds ncs by (simp add: recreations_def count_list_0_iff)
  moreover have "\<forall>c\<in>set ?new. \<not> frame_work_call c"
    using fds cs by (auto simp: creation_call_def)
  moreover have "calls s' = calls s @ ?new" using c by simp
  ultimately show ?thesis by blast
qed

lemma example_recreated:
  "vkx_recreate_swap_chain example_driver example_world = Inr example_world_recreated"
  by (simp add: vkx_recreate_swap_chain_def vkx_cleanup_swap_chain_def vkx_create_swap_chain_def
      example_driver_def example_world_def example_world_recreated_def
      swapchain_create_info_def Let_def
      choose_surface_format_def choose_present_mode_def choose_image_count_def
      vkx_choose_swap_extent_def vkx_create_image_view_def upt_conv_Cons)

section \<open>Facts about the blocks of draw\_frame\<close>

lemma record_command_buffer_Inr:
  assumes "record_command_buffer e cf i s = Inr s'"
  shows "\<exists>cs. s' = s\<lparr>calls := calls s @ cs\<rparr>
            \<and> VkCmdDrawingOffscreen cf \<in> set cs
            \<and> VkCmdDrawing cf i \<in> set cs
            \<and> VkDeviceWaitIdle \<notin> set cs"
  using assms
  by (auto simp: record_command_buffer_def vkx_transition_image_layout_def Let_def
      split: if_splits)

lemma frame_until_present_Inr:
  assumes "frame_until_present e s1 = Inr s5"
  shows "current_frame s5 = current_frame s1"
    and "in_flight_fences s5 = (in_flight_fences s1)[unat (current_frame s1) := Pending]"
    and "suboptimal_swapchain_count s5
           = count_after_present (present_result e) (suboptimal_swapchain_count s1)"
    and "framebuffer_resized s5 = framebuffer_resized s1"
    and "vkx_swap_chain s5 = vkx_swap_chain s1"
    and "\<exists>cs. calls s5 = calls s1 @ cs \<and> recreations cs = 0
           \<and> VkResetFences (unat (current_frame s1)) \<in> set cs
           \<and> VkCmdDrawing (unat (current_frame s1)) (acquired_image_index e) \<in> set cs
           \<and> VkQueueSubmit (unat (current_frame s1)) (Some (unat (current_frame s1))) \<in> set cs
           \<and> VkQueuePresentKHR (swap_chain (vkx_swap_chain s1)) (acquired_image_index e) \<in> set cs"
proof -
  let ?cf = "unat (current_frame s1)"
  let ?s2 = "s1\<lparr>in_flight_fences := (in_flight_fences s1)[?cf := Unsignaled],
                  calls := calls s1 @ [VkResetFences ?cf, VkResetCommandBuffer ?cf]\<rparr>"
  from assms obtain s3 where
    s3: "record_command_buffer e ?cf (acquired_image_index e) ?s2 = Inr s3"
    by (auto simp: frame_until_present_def Let_def split: sum.splits)
  from record_command_buffer_Inr [OF s3]
  obtain cs where s3_eq: "s3 = ?s2\<lparr>calls := calls ?s2 @ cs\<rparr>"
    and dcs: "VkCmdDrawing ?cf (acquired_image_index e) \<in> set cs"
    and ncs: "VkDeviceWaitIdle \<notin> set cs"
    by blast
  from assms s3 have s5: "s5 = s3\<lparr>in_flight_fences := (in_flight_fences s3)[?cf := Pending],
                        calls := calls s3 @ [VkQueueSubmit ?cf (Some ?cf),
                           VkQueuePresentKHR (swap_chain (vkx_swap_chain s3))
                             (acquired_image_index e)],
                        suboptimal_swapchain_count :=
                          count_after_present (present_result e) (suboptimal_swapchain_count s3)\<rparr>"
    by (simp add: frame_until_present_def Let_def split: if_splits)
  show "current_frame s5 = current_frame s1" by (simp add: s5 s3_eq)
  show "in_flight_fences s5 = (in_flight_fences s1)[?cf := Pending]" by (simp add: s5 s3_eq)
  show "suboptimal_swapchain_count s5
           = count_after_present (present_result e) (suboptimal_swapchain_count s1)"
    by (simp add: s5 s3_eq)
  show "framebuffer_resized s5 = framebuffer_resized s1" by (simp add: s5 s3_eq)
  show "vkx_swap_chain s5 = vkx_swap_chain s1" by (simp add: s5 s3_eq)
  let ?new = "[VkResetFences ?cf, VkResetCommandBuffer ?cf] @ cs
      @ [VkQueueSubmit ?cf (Some ?cf),
         VkQueuePresentKHR (swap_chain (vkx_swap_chain s1)) (acquired_image_index e)]"
  have "calls s5 = calls s1 @ ?new" by (simp add: s5 s3_eq)
  moreover have "recreations ?new = 0"
    using ncs by (auto simp: recreations_def count_list_0_iff)
  moreover note dcs
  ultimately show "\<exists>cs. calls s5 = calls s1 @ cs \<and> recreations cs = 0
           \<and> VkResetFences ?cf \<in> set cs
           \<and> VkCmdDrawing ?cf (acquired_image_index e) \<in> set cs
           \<and> VkQueueSubmit ?cf (Some ?cf) \<in> set cs
           \<and> VkQueuePresentKHR (swap_chain (vkx_swap_chain s1)) (acquired_image_index e) \<in> set cs"
    by (intro exI [of _ ?new]) simp
qed

lemma present_result_handling_Inr:
  assumes "present_result_handling d r s = Inr s'"
  shows "current_frame s' = current_frame s"
    and "in_flight_fences s' = in_flight_fences s"
    and "suboptimal_swapchain_count s'
           = (if \<not> framebuffer_resized s
                 \<and> SUBOPTIMAL_SWAPCHAIN_THRESHOLD \<le> suboptimal_swapchain_count s
              then 0 else suboptimal_swapchain_count s)"
    and "\<not> framebuffer_resized s'"
  using assms
  by (auto simp: present_result_handling_def split: if_splits
      dest: vkx_recreate_swap_chain_frame)

lemma present_result_handling_calls:
  assumes "present_result_handling d r s = Inr s'"
  shows "\<exists>cs. calls s' = calls s @ cs \<and> (\<forall>c\<in>set cs. \<not> frame_work_call c)
           \<and> recreations cs
               = (if framebuffer_resized s
                     \<or> SUBOPTIMAL_SWAPCHAIN_THRESHOLD \<le> suboptimal_swapchain_count s
                     \<or> r = VK_ERROR_OUT_OF_DATE_KHR then 1 else 0)"
proof (cases "framebuffer_resized s
                     \<or> SUBOPTIMAL_SWAPCHAIN_THRESHOLD \<le> suboptimal_swapchain_count s
                     \<or> r = VK_ERROR_OUT_OF_DATE_KHR")
  case True
  with assms obtain s0 where rec: "vkx_recreate_swap_chain d s0 = Inr s'"
    and c0: "calls s0 = calls s"
    by (auto simp: present_result_handling_def split: if_splits)
  from recreations_of_recreate [OF rec] c0 True show ?thesis by auto
next
  case False
  with assms have "s' = s"
    by (auto simp: present_result_handling_def split: if_splits)
  with False show ?thesis by (simp add: recreations_def)
qed

lemma draw_frame_presented:
  assumes "draw_frame e s = Inr s'"
    and "acquire_result e \<noteq> VK_ERROR_OUT_OF_DATE_KHR"
  obtains s5 s6 where "frame_until_present e (wait_and_acquire s) = Inr s5"
    and "present_result_handling (recreate_driver e) (present_result e) s5 = Inr s6"
    and "s' = s6\<lparr>current_frame := (current_frame s6 + 1) mod VKX_FRAMES_IN_FLIGHT\<rparr>"
    and "in_flight_fences s ! unat (current_frame s) \<noteq> Unsignaled"
    and "acquire_result e = VK_SUCCESS \<or> acquire_result e = VK_SUBOPTIMAL_KHR"
  using assms
  by (auto simp: draw_frame_def Let_def split: if_splits sum.splits)

lemma wait_and_acquire_simps:
  "current_frame (wait_and_acquire s) = current_frame s"
  "in_flight_fences (wait_and_acquire s)
     = (in_flight_fences s)[unat (current_frame s) := Signaled]"
  "suboptimal_swapchain_count (wait_and_acquire s) = suboptimal_swapchain_count s"
  "framebuffer_resized (wait_and_acquire s) = framebuffer_resized s"
  "vkx_swap_chain (wait_and_acquire s) = vkx_swap_chain s"
  "calls (wait_and_acquire s) = calls s @ [VkWaitForFences (unat (current_frame s)),
     VkAcquireNextImageKHR (swap_chain (vkx_swap_chain s)) (unat (current_frame s))]"
  by (simp_all add: wait_and_acquire_def Let_def)

lemma draw_frame_stale:
  assumes "in_flight_fences s ! unat (current_frame s) \<noteq> Unsignaled"
    and "acquire_result e = VK_ERROR_OUT_OF_DATE_KHR"
  shows "draw_frame e s = vkx_recreate_swap_chain (recreate_driver e) (wait_and_acquire s)"
  using assms by (simp add: draw_frame_def Let_def)

lemma draw_frame_not_blocked:
  "draw_frame e s = Inr s' \<Longrightarrow> in_flight_fences s ! unat (current_frame s) \<noteq> Unsignaled"
  by (auto simp: draw_frame_def Let_def split: if_splits)

lemma draw_frame_presented_calls:
  assumes "frame_until_present e (wait_and_acquire s) = Inr s5"
    and "present_result_handling (recreate_driver e) (present_result e) s5 = Inr s6"
  shows "recreations (drop (length (calls s)) (calls s6))
           = (if framebuffer_resized s
                 \<or> SUBOPTIMAL_SWAPCHAIN_THRESHOLD
                      \<le> count_after_present (present_result e) (suboptimal_swapchain_count s)
                 \<or> present_result e = VK_ERROR_OUT_OF_DATE_KHR then 1 else 0)"
proof -
  from frame_until_present_Inr(6) [OF assms(1)]
  obtain cs where cs: "calls s5 = calls (wait_and_acquire s) @ cs" "recreations cs = 0"
    by blast
  from present_result_handling_calls [OF assms(2)]
  obtain ds where ds: "calls s6 = calls s5 @ ds"
    "recreations ds = (if framebuffer_resized s5
         \<or> SUBOPTIMAL_SWAPCHAIN_THRESHOLD \<le> suboptimal_swapchain_count s5
         \<or> present_result e = VK_ERROR_OUT_OF_DATE_KHR then 1 else 0)"
    by blast
  have "drop (length (calls s)) (calls s6)
      = [VkWaitForFences (unat (current_frame s)),
         VkAcquireNextImageKHR (swap_chain (vkx_swap_chain s)) (unat (current_frame s))]
        @ cs @ ds"
    using cs(1) ds(1) by (simp add: wait_and_acquire_simps)
  then have "recreations (drop (length (calls s)) (calls s6)) = recreations ds"
    using cs(2) by (simp add: recreations_def)
  with ds(2) frame_until_present_Inr(3,4) [OF assms(1)]
  show ?thesis by (simp add: wait_and_acquire_simps)
qed

lemma draw_frame_fences:
  assumes "draw_frame e s = Inr s'"
  shows "in_flight_fences s'
           = (in_flight_fences s)[unat (current_frame s) :=
                (if acquire_result e = VK_ERROR_OUT_OF_DATE_KHR then Signaled else Pending)]"
proof (cases "acquire_result e = VK_ERROR_OUT_OF_DATE_KHR")
  case True
  from draw_frame_stale [OF draw_frame_not_blocked [OF assms] True] assms
  have "vkx_recreate_swap_chain (recreate_driver e) (wait_and_acquire s) = Inr s'" by simp
  from vkx_recreate_swap_chain_frame(1) [OF this] True
  show ?thesis by (simp add: wait_and_acquire_simps)
next
  case False
  from draw_frame_presented [OF assms False]
  obtain s5 s6 where s5: "frame_until_present e (wait_and_acquire s) = Inr s5"
    and s6: "present_result_handling (recreate_driver e) (present_result e) s5 = Inr s6"
    and s': "s' = s6\<lparr>current_frame := (current_frame s6 + 1) mod VKX_FRAMES_IN_FLIGHT\<rparr>"
    by blast
  from frame_until_present_Inr(2) [OF s5] present_result_handling_Inr(2) [OF s6] s' False
  show ?thesis by (simp add: wait_and_acquire_simps)
qed

lemma draw_frame_no_fence_left_unsignaled:
  assumes "draw_frame e s = Inr s'"
    and "\<forall>i<length (in_flight_fences s). in_flight_fences s ! i \<noteq> Unsignaled"
  shows "\<forall>i<length (in_flight_fences s'). in_flight_fences s' ! i \<noteq> Unsignaled"
proof (intro allI impI)
  note fences = draw_frame_fences [OF assms(1)]
  fix i
  assume "i < length (in_flight_fences s')"
  then have i: "i < length (in_flight_fences s)" by (simp add: fences)
  show "in_flight_fences s' ! i \<noteq> Unsignaled"
  proof (cases "i = unat (current_frame s)")
    case True
    with i show ?thesis by (simp add: fences)
  next
    case False
    with i assms(2) show ?thesis by (simp add: fences)
  qed
qed

text \<open>Unfolding everything on the concrete inputs.\<close>

lemmas example_eval =
  draw_frame_def wait_and_acquire_def frame_until_present_def record_command_buffer_def
  present_result_handling_def count_after_present_def vkx_transition_image_layout_def
  transition_aspect_mask_def
  vkx_recreate_swap_chain_def vkx_cleanup_swap_chain_def vkx_create_swap_chain_def
  swapchain_create_info_def choose_surface_format_def choose_present_mode_def
  choose_image_count_def vkx_choose_swap_extent_def vkx_create_image_view_def
  example_driver_def example_world_def example_frame_def example_stale_frame_def
  example_suboptimal_frame_def example_resized_world_def
  SUBOPTIMAL_SWAPCHAIN_THRESHOLD_def VKX_FRAMES_IN_FLIGHT_def
  new_calls_def recreations_def Let_def upt_conv_Cons

lemma example_frame_returns:
  "\<exists>s'. draw_frame example_frame example_world = Inr s'"
  by (simp add: example_eval)

lemma example_stale_frame_returns:
  "\<exists>s'. draw_frame example_stale_frame example_world = Inr s'"
  by (simp add: example_eval)

lemma example_suboptimal_frame_returns:
  "\<exists>s'. draw_frame example_suboptimal_frame example_resized_world = Inr s'"
  by (simp add: example_eval)

lemma example_suboptimal_acquire_frame_returns:
  "\<exists>s'. draw_frame example_suboptimal_acquire_frame example_world = Inr s'"
  by (simp add: example_eval example_suboptimal_acquire_frame_def)

lemma example_nine_frame_returns:
  "\<exists>s'. draw_frame example_suboptimal_frame example_nine_world = Inr s'"
  by (simp add: example_eval example_nine_world_def)

section \<open>Memory-type selection returns the lowest suitable index\<close>

lemma and_eq_iff_superset:
  "(a AND p = p) \<longleftrightarrow> (\<forall>n. bit p n \<longrightarrow> bit a n)" for a p :: u32
proof
  assume h: "a AND p = p"
  show "\<forall>n. bit p n \<longrightarrow> bit a n"
  proof (intro allI impI)
    fix n
    assume "bit p n"
    with h have "bit (a AND p) n" by simp
    then show "bit a n" by (simp add: bit_and_iff)
  qed
next
  assume "\<forall>n. bit p n \<longrightarrow> bit a n"
  then show "a AND p = p"
    by (intro bit_eqI) (auto simp: bit_and_iff)
qed

lemma type_filter_bit:
  "(tf AND push_bit i 1 \<noteq> 0) \<longleftrightarrow> bit tf i" for tf :: u32
  by (simp add: push_bit_of_1 and_exp_eq_0_iff_not_bit)

lemma loop_test_suitable:
  "(tf AND push_bit i 1 \<noteq> 0 \<and> propertyFlags (memoryTypes mp ! i) AND ps = ps)
     \<longleftrightarrow> suitable_memory_type mp tf ps i"
  by (simp only: suitable_memory_type_def type_filter_bit and_eq_iff_superset)

lemma loop_test_suitable_exp:
  "(tf AND 2 ^ i \<noteq> 0 \<and> propertyFlags (memoryTypes mp ! i) AND ps = ps)
     \<longleftrightarrow> suitable_memory_type mp tf ps i"
  using loop_test_suitable [of tf i mp ps] by (simp only: push_bit_of_1)

lemma find_memory_type_loop_Inr:
  "find_memory_type_loop mp tf ps i = Inr k \<Longrightarrow>
     i \<le> k \<and> k < memoryTypeCount mp \<and> suitable_memory_type mp tf ps k
     \<and> (\<forall>j. i \<le> j \<and> j < k \<longrightarrow> \<not> suitable_memory_type mp tf ps j)"
proof (induction mp tf ps i rule: find_memory_type_loop.induct)
  case (1 mp tf ps i)
  show ?case
  proof (cases "i < memoryTypeCount mp")
    case False
    with "1.prems" show ?thesis by simp
  next
    case in_range: True
    show ?thesis
    proof (cases "suitable_memory_type mp tf ps i")
      case True
      with in_range "1.prems" have "k = i"
        by (simp add: loop_test_suitable_exp)
      with True in_range show ?thesis by auto
    next
      case False
      with in_range "1.prems"
      have rec: "find_memory_type_loop mp tf ps (Suc i) = Inr k"
        by (simp add: loop_test_suitable_exp)
      from False in_range have "\<not> (tf AND push_bit i 1 \<noteq> 0
            \<and> propertyFlags (memoryTypes mp ! i) AND ps = ps)"
        by (simp only: loop_test_suitable not_False_eq_True)
      from "1.IH" [OF in_range this rec]
      have ih: "Suc i \<le> k" "k < memoryTypeCount mp" "suitable_memory_type mp tf ps k"
        "\<forall>j. Suc i \<le> j \<and> j < k \<longrightarrow> \<not> suitable_memory_type mp tf ps j"
        by simp_all
      have "\<not> suitable_memory_type mp tf ps j" if "i \<le> j" "j < k" for j
      proof (cases "j = i")
        case True
        with False show ?thesis by simp
      next
        case False
        with that ih(4) show ?thesis by (simp add: Suc_le_eq)
      qed
      with ih show ?thesis by auto
    qed
  qed
qed

lemma find_memory_type_loop_Inl:
  "find_memory_type_loop mp tf ps i = Inl f \<Longrightarrow>
     f = Failed_to_find_suitable_memory_type
     \<and> (\<forall>j. i \<le> j \<and> j < memoryTypeCount mp \<longrightarrow> \<not> suitable_memory_type mp tf ps j)"
proof (induction mp tf ps i rule: find_memory_type_loop.induct)
  case (1 mp tf ps i)
  show ?case
  proof (cases "i < memoryTypeCount mp")
    case False
    with "1.prems" show ?thesis by auto
  next
    case in_range: True
    have unsuitable: "\<not> suitable_memory_type mp tf ps i"
    proof
      assume "suitable_memory_type mp tf ps i"
      with in_range "1.prems" show False by (simp add: loop_test_suitable_exp)
    qed
    with in_range "1.prems"
    have rec: "find_memory_type_loop mp tf ps (Suc i) = Inl f"
      by (simp add: loop_test_suitable_exp)
    from unsuitable have "\<not> (tf AND push_bit i 1 \<noteq> 0
          \<and> propertyFlags (memoryTypes mp ! i) AND ps = ps)"
      by (simp only: loop_test_suitable not_False_eq_True)
    from "1.IH" [OF in_range this rec]
    have ih: "f = Failed_to_find_suitable_memory_type"
      "\<forall>j. Suc i \<le> j \<and> j < memoryTypeCount mp \<longrightarrow> \<not> suitable_memory_type mp tf ps j"
      by simp_all
    have "\<not> suitable_memory_type mp tf ps j" if "i \<le> j" "j < memoryTypeCount mp" for j
    proof (cases "j = i")
      case True
      with unsuitable show ?thesis by simp
    next
      case False
      with that ih(2) show ?thesis by (simp add: Suc_le_eq)
    qed
    with ih(1) show ?thesis by auto
  qed
qed

text \<open>
  C5. For every type filter and every requested property flags: when some index below
  \<open>memoryTypeCount\<close> has its bit set in the filter and property flags that contain
  the requested ones, \<open>vkx_find_memory_type\<close> returns the lowest such index; when
  there is none, it ends in the fatal exit "failed to find suitable memory type".
\<close>

theorem vkx_find_memory_type_lowest:
  assumes "valid_memory_properties mp"
  shows "if \<exists>i<memoryTypeCount mp. suitable_memory_type mp type_filter properties i
         then \<exists>i<memoryTypeCount mp.
                vkx_find_memory_type mp type_filter properties = Inr i
                \<and> suitable_memory_type mp type_filter properties i
                \<and> (\<forall>j<i. \<not> suitable_memory_type mp type_filter properties j)
         else vkx_find_memory_type mp type_filter properties
                = Inl Failed_to_find_suitable_memory_type"
proof (cases "vkx_find_memory_type mp type_filter properties")
  case (Inl f)
  then have "find_memory_type_loop mp type_filter properties 0 = Inl f"
    by (simp add: vkx_find_memory_type_def)
  from find_memory_type_loop_Inl [OF this] Inl show ?thesis by auto
next
  case (Inr k)
  then have "find_memory_type_loop mp type_filter properties 0 = Inr k"
    by (simp add: vkx_find_memory_type_def)
  from find_memory_type_loop_Inr [OF this] Inr show ?thesis by auto
qed

theorem vkx_find_memory_type_lowest_witness:
  "valid_memory_properties example_memory_properties
   \<and> vkx_find_memory_type example_memory_properties 6 6 = Inr 2
   \<and> vkx_find_memory_type example_memory_properties 6 8 = Inl Failed_to_find_suitable_memory_type"
proof -
  have v: "valid_memory_properties example_memory_properties"
    by (simp add: valid_memory_properties_def example_memory_properties_def
        VK_MAX_MEMORY_TYPES_def)
  from vkx_find_memory_type_lowest [OF v, of 6 6] vkx_find_memory_type_lowest [OF v, of 6 8] v
  show ?thesis
    by (simp add: example_memory_properties_def vkx_find_memory_type_def)
qed

section \<open>The frame counter\<close>

text \<open>
  C1 (as amended). A call of \<open>draw_frame\<close> that returns advances \<open>current_frame\<close> by
  one modulo \<open>VKX_FRAMES_IN_FLIGHT\<close>, once, on every frame that was not skipped. When
  acquire reports \<open>VK_ERROR_OUT_OF_DATE_KHR\<close> the function recreates the swapchain and
  returns at once: the counter keeps its value and the next call uses the same slot.
\<close>

theorem draw_frame_counter:
  assumes "draw_frame e s = Inr s'"
  shows "current_frame s'
           = (if acquire_result e = VK_ERROR_OUT_OF_DATE_KHR then current_frame s
              else (current_frame s + 1) mod VKX_FRAMES_IN_FLIGHT)"
proof (cases "acquire_result e = VK_ERROR_OUT_OF_DATE_KHR")
  case True
  from draw_frame_stale [OF draw_frame_not_blocked [OF assms] True] assms
  have "vkx_recreate_swap_chain (recreate_driver e) (wait_and_acquire s) = Inr s'" by simp
  from vkx_recreate_swap_chain_frame(2) [OF this] True
  show ?thesis by (simp add: wait_and_acquire_simps)
next
  case False
  from draw_frame_presented [OF assms False]
  obtain s5 s6 where s5: "frame_until_present e (wait_and_acquire s) = Inr s5"
    and s6: "present_result_handling (recreate_driver e) (present_result e) s5 = Inr s6"
    and s': "s' = s6\<lparr>current_frame := (current_frame s6 + 1) mod VKX_FRAMES_IN_FLIGHT\<rparr>"
    by blast
  from frame_until_present_Inr(1) [OF s5] present_result_handling_Inr(1) [OF s6]
  have "current_frame s6 = current_frame s" by (simp add: wait_and_acquire_simps)
  with s' False show ?thesis by simp
qed

theorem draw_frame_counter_witness:
  "(\<exists>s'. draw_frame example_frame example_world = Inr s' \<and> current_frame s' = 1)
   \<and> (\<exists>s'. draw_frame example_stale_frame example_world = Inr s' \<and> current_frame s' = 0)"
proof -
  from example_frame_returns obtain s1
    where s1: "draw_frame example_frame example_world = Inr s1" ..
  from example_stale_frame_returns obtain s2
    where s2: "draw_frame example_stale_frame example_world = Inr s2" ..
  have a: "acquire_result example_frame \<noteq> VK_ERROR_OUT_OF_DATE_KHR"
    "acquire_result example_stale_frame = VK_ERROR_OUT_OF_DATE_KHR"
    "current_frame example_world = 0"
    by (simp_all add: example_frame_def example_stale_frame_def example_world_def)
  from draw_frame_counter [OF s1] a have "current_frame s1 = 1"
    by (simp add: VKX_FRAMES_IN_FLIGHT_def)
  moreover from draw_frame_counter [OF s2] a have "current_frame s2 = 0" by simp
  ultimately show ?thesis using s1 s2 by blast
qed

text \<open>
  The claim as first stated, that the counter advances also on the skipped frame, fails:
  in slot 0 with a stale acquire the call returns with the counter still 0.
\<close>

theorem draw_frame_counter_counterexample:
  "current_frame example_world = 0
   \<and> map_sum id current_frame (draw_frame example_stale_frame example_world) = Inr 0
   \<and> (0 + 1) mod VKX_FRAMES_IN_FLIGHT \<noteq> 0"
  by (simp add: example_eval)

section \<open>The suboptimal debounce counter\<close>

text \<open>
  C2 (as amended). On a frame that reaches present, the counter after the present call is
  the old value plus one (in \<open>uint32_t\<close> arithmetic) when the present result is
  \<open>VK_SUBOPTIMAL_KHR\<close>, and zero on any other result. The swapchain is then recreated
  exactly when the resize flag is set, or the counter has reached 10, or present reported
  \<open>VK_ERROR_OUT_OF_DATE_KHR\<close>. After a recreation triggered by the threshold or by a
  stale present result the counter is zero. A recreation triggered by the resize flag does
  not touch the counter: it is zero when the present result was not suboptimal, and the
  incremented count otherwise.
\<close>

theorem suboptimal_counter_after_present:
  assumes "draw_frame e s = Inr s'"
    and "acquire_result e \<noteq> VK_ERROR_OUT_OF_DATE_KHR"
  shows "count_after_present (present_result e) (suboptimal_swapchain_count s)
           = (if present_result e = VK_SUBOPTIMAL_KHR then suboptimal_swapchain_count s + 1
              else 0)
    \<and> suboptimal_swapchain_count s'
        = (if framebuffer_resized s
           then count_after_present (present_result e) (suboptimal_swapchain_count s)
           else if 10 \<le> count_after_present (present_result e) (suboptimal_swapchain_count s)
           then 0
           else count_after_present (present_result e) (suboptimal_swapchain_count s))
    \<and> recreations (new_calls s s')
        = (if framebuffer_resized s
              \<or> 10 \<le> count_after_present (present_result e) (suboptimal_swapchain_count s)
              \<or> present_result e = VK_ERROR_OUT_OF_DATE_KHR then 1 else 0)
    \<and> (\<not> framebuffer_resized s \<and> recreations (new_calls s s') = 1
          \<longrightarrow> suboptimal_swapchain_count s' = 0)"
proof -
  let ?c = "count_after_present (present_result e) (suboptimal_swapchain_count s)"
  from draw_frame_presented [OF assms]
  obtain s5 s6 where s5: "frame_until_present e (wait_and_acquire s) = Inr s5"
    and s6: "present_result_handling (recreate_driver e) (present_result e) s5 = Inr s6"
    and s': "s' = s6\<lparr>current_frame := (current_frame s6 + 1) mod VKX_FRAMES_IN_FLIGHT\<rparr>"
    by blast
  have c5: "suboptimal_swapchain_count s5 = ?c" and r5: "framebuffer_resized s5 = framebuffer_resized s"
    using frame_until_present_Inr(3,4) [OF s5] by (simp_all add: wait_and_acquire_simps)
  have first: "?c = (if present_result e = VK_SUBOPTIMAL_KHR then suboptimal_swapchain_count s + 1
              else 0)"
    by (simp add: count_after_present_def)
  have count: "suboptimal_swapchain_count s'
        = (if framebuffer_resized s then ?c else if 10 \<le> ?c then 0 else ?c)"
    using present_result_handling_Inr(3) [OF s6] c5 r5 s'
    by (simp add: SUBOPTIMAL_SWAPCHAIN_THRESHOLD_def)
  have recs: "recreations (new_calls s s')
        = (if framebuffer_resized s \<or> 10 \<le> ?c
              \<or> present_result e = VK_ERROR_OUT_OF_DATE_KHR then 1 else 0)"
    using draw_frame_presented_calls [OF s5 s6] s'
    by (simp add: new_calls_def SUBOPTIMAL_SWAPCHAIN_THRESHOLD_def)
  have zero: "suboptimal_swapchain_count s' = 0"
    if "\<not> framebuffer_resized s" "recreations (new_calls s s') = 1"
  proof (cases "10 \<le> ?c")
    case True
    with that(1) count show ?thesis by simp
  next
    case False
    have "present_result e = VK_ERROR_OUT_OF_DATE_KHR"
    proof (rule ccontr)
      assume "present_result e \<noteq> VK_ERROR_OUT_OF_DATE_KHR"
      with False that(1) have "\<not> (framebuffer_resized s \<or> 10 \<le> ?c
              \<or> present_result e = VK_ERROR_OUT_OF_DATE_KHR)"
        by blast
      then have "recreations (new_calls s s') = 0"
        by (simp only: recs if_False)
      with that(2) show False by simp
    qed
    then have "?c = 0" by (simp add: count_after_present_def)
    with that(1) count show ?thesis by simp
  qed
  show ?thesis
  proof (intro conjI impI)
    show "?c = (if present_result e = VK_SUBOPTIMAL_KHR then suboptimal_swapchain_count s + 1
              else 0)"
      by (rule first)
    show "suboptimal_swapchain_count s'
        = (if framebuffer_resized s then ?c else if 10 \<le> ?c then 0 else ?c)"
      by (rule count)
    show "recreations (new_calls s s')
        = (if framebuffer_resized s \<or> 10 \<le> ?c
              \<or> present_result e = VK_ERROR_OUT_OF_DATE_KHR then 1 else 0)"
      by (rule recs)
    show "suboptimal_swapchain_count s' = 0"
      if "\<not> framebuffer_resized s \<and> recreations (new_calls s s') = 1"
      using that zero by simp
  qed
qed

theorem suboptimal_counter_after_present_witness:
  "acquire_result example_suboptimal_frame \<noteq> VK_ERROR_OUT_OF_DATE_KHR
   \<and> (\<exists>s'. draw_frame example_suboptimal_frame example_resized_world = Inr s'
         \<and> suboptimal_swapchain_count s' = 4
         \<and> recreations (new_calls example_resized_world s') = 1)
   \<and> (\<exists>s'. draw_frame example_frame example_world = Inr s'
         \<and> suboptimal_swapchain_count s' = 0
         \<and> recreations (new_calls example_world s') = 0)
   \<and> \<not> framebuffer_resized example_nine_world
   \<and> (\<exists>s'. draw_frame example_suboptimal_frame example_nine_world = Inr s'
         \<and> recreations (new_calls example_nine_world s') = 1
         \<and> suboptimal_swapchain_count s' = 0)"
proof -
  have a: "acquire_result example_suboptimal_frame \<noteq> VK_ERROR_OUT_OF_DATE_KHR"
    and b: "acquire_result example_frame \<noteq> VK_ERROR_OUT_OF_DATE_KHR"
    by (simp_all add: example_suboptimal_frame_def example_frame_def)
  from example_suboptimal_frame_returns obtain s1
    where s1: "draw_frame example_suboptimal_frame example_resized_world = Inr s1" ..
  from example_frame_returns obtain s2
    where s2: "draw_frame example_frame example_world = Inr s2" ..
  have v: "framebuffer_resized example_resized_world"
    "suboptimal_swapchain_count example_resized_world = 3"
    "present_result example_suboptimal_frame = VK_SUBOPTIMAL_KHR"
    "\<not> framebuffer_resized example_world"
    "suboptimal_swapchain_count example_world = 3"
    "present_result example_frame = VK_SUCCESS"
    by (simp_all add: example_resized_world_def example_world_def
        example_suboptimal_frame_def example_frame_def)
  from suboptimal_counter_after_present [OF s1 a] v
  have "suboptimal_swapchain_count s1 = 4 \<and> recreations (new_calls example_resized_world s1) = 1"
    by (simp add: count_after_present_def)
  moreover from suboptimal_counter_after_present [OF s2 b] v
  have "suboptimal_swapchain_count s2 = 0 \<and> recreations (new_calls example_world s2) = 0"
    by (simp add: count_after_present_def)
  moreover from example_nine_frame_returns obtain s3
    where s3: "draw_frame example_suboptimal_frame example_nine_world = Inr s3" ..
  moreover have w: "\<not> framebuffer_resized example_nine_world"
    "suboptimal_swapchain_count example_nine_world = 9"
    by (simp_all add: example_nine_world_def example_world_def)
  moreover from suboptimal_counter_after_present [OF s3 a] v(3) w
  have "recreations (new_calls example_nine_world s3) = 1
      \<and> suboptimal_swapchain_count s3 = 0"
    by (simp add: count_after_present_def)
  ultimately show ?thesis using a s1 s2 by blast
qed

text \<open>
  The claim as first stated, that the counter is zero after every recreation, fails: with
  the resize flag set, the counter at 3 and a suboptimal present, the swapchain is recreated
  once and the counter is 4.
\<close>

theorem suboptimal_counter_after_present_counterexample:
  "framebuffer_resized example_resized_world
   \<and> suboptimal_swapchain_count example_resized_world = 3
   \<and> present_result example_suboptimal_frame = VK_SUBOPTIMAL_KHR
   \<and> map_sum id suboptimal_swapchain_count
        (draw_frame example_suboptimal_frame example_resized_world) = Inr 4
   \<and> map_sum id (recreations \<circ> new_calls example_resized_world)
        (draw_frame example_suboptimal_frame example_resized_world) = Inr 1"
  by (simp add: example_eval)

section \<open>Precedence of present-result handling\<close>

text \<open>
  C3. After the present call, with the counter already updated: (1) when the resize flag is
  set the swapchain is recreated and the flag cleared, whatever the counter and the present
  result are; (2) otherwise, when the counter has reached the threshold 10, the swapchain
  is recreated and the counter reset; (3) otherwise, when present reported
  \<open>VK_ERROR_OUT_OF_DATE_KHR\<close>, the swapchain is recreated; (4) otherwise any result
  other than \<open>VK_SUCCESS\<close> and \<open>VK_SUBOPTIMAL_KHR\<close> is fatal, and these two leave the
  state as it is. Every call of \<open>draw_frame\<close> that reaches present ends in this
  handling, followed only by the advance of the frame counter.
\<close>

theorem present_result_precedence:
  "(framebuffer_resized s \<longrightarrow>
      present_result_handling d r s
        = vkx_recreate_swap_chain d (s\<lparr>framebuffer_resized := False\<rparr>))
   \<and> (\<not> framebuffer_resized s \<and> 10 \<le> suboptimal_swapchain_count s \<longrightarrow>
      present_result_handling d r s
        = vkx_recreate_swap_chain d (s\<lparr>suboptimal_swapchain_count := 0\<rparr>))
   \<and> (\<not> framebuffer_resized s \<and> suboptimal_swapchain_count s < 10
        \<and> r = VK_ERROR_OUT_OF_DATE_KHR \<longrightarrow>
      present_result_handling d r s = vkx_recreate_swap_chain d s)
   \<and> (\<not> framebuffer_resized s \<and> suboptimal_swapchain_count s < 10
        \<and> r \<noteq> VK_ERROR_OUT_OF_DATE_KHR \<and> r \<noteq> VK_SUCCESS \<and> r \<noteq> VK_SUBOPTIMAL_KHR \<longrightarrow>
      present_result_handling d r s = Inl (Failed_to_present_swap_chain_image r))
   \<and> (\<not> framebuffer_resized s \<and> suboptimal_swapchain_count s < 10
        \<and> (r = VK_SUCCESS \<or> r = VK_SUBOPTIMAL_KHR) \<longrightarrow>
      present_result_handling d r s = Inr s)
   \<and> (\<forall>e s0 s'. draw_frame e s0 = Inr s' \<and> acquire_result e \<noteq> VK_ERROR_OUT_OF_DATE_KHR \<longrightarrow>
        (\<exists>s5 s6. frame_until_present e (wait_and_acquire s0) = Inr s5
           \<and> VkQueuePresentKHR (swap_chain (vkx_swap_chain s0)) (acquired_image_index e)
               \<in> set (new_calls s0 s5)
           \<and> present_result_handling (recreate_driver e) (present_result e) s5 = Inr s6
           \<and> s' = s6\<lparr>current_frame := (current_frame s6 + 1) mod VKX_FRAMES_IN_FLIGHT\<rparr>))
   \<and> (\<forall>e s0 s5. in_flight_fences s0 ! unat (current_frame s0) \<noteq> Unsignaled
        \<and> (acquire_result e = VK_SUCCESS \<or> acquire_result e = VK_SUBOPTIMAL_KHR)
        \<and> frame_until_present e (wait_and_acquire s0) = Inr s5 \<longrightarrow>
        draw_frame e s0
          = (case present_result_handling (recreate_driver e) (present_result e) s5 of
               Inl f \<Rightarrow> Inl f
             | Inr s6 \<Rightarrow>
                 Inr (s6\<lparr>current_frame := (current_frame s6 + 1) mod VKX_FRAMES_IN_FLIGHT\<rparr>)))"
proof (intro conjI allI impI)
  show "present_result_handling d r s
        = vkx_recreate_swap_chain d (s\<lparr>framebuffer_resized := False\<rparr>)"
    if "framebuffer_resized s"
    using that by (simp add: present_result_handling_def)
  show "present_result_handling d r s
        = vkx_recreate_swap_chain d (s\<lparr>suboptimal_swapchain_count := 0\<rparr>)"
    if "\<not> framebuffer_resized s \<and> 10 \<le> suboptimal_swapchain_count s"
    using that by (simp add: present_result_handling_def SUBOPTIMAL_SWAPCHAIN_THRESHOLD_def)
  show "present_result_handling d r s = vkx_recreate_swap_chain d s"
    if "\<not> framebuffer_resized s \<and> suboptimal_swapchain_count s < 10
        \<and> r = VK_ERROR_OUT_OF_DATE_KHR"
  proof -
    from that have "\<not> 10 \<le> suboptimal_swapchain_count s" by (simp add: not_le)
    with that show ?thesis
      by (auto simp: present_result_handling_def SUBOPTIMAL_SWAPCHAIN_THRESHOLD_def)
  qed
  show "present_result_handling d r s = Inl (Failed_to_present_swap_chain_image r)"
    if "\<not> framebuffer_resized s \<and> suboptimal_swapchain_count s < 10
        \<and> r \<noteq> VK_ERROR_OUT_OF_DATE_KHR \<and> r \<noteq> VK_SUCCESS \<and> r \<noteq> VK_SUBOPTIMAL_KHR"
  proof -
    from that have "\<not> 10 \<le> suboptimal_swapchain_count s" by (simp add: not_le)
    with that show ?thesis
      by (auto simp: present_result_handling_def SUBOPTIMAL_SWAPCHAIN_THRESHOLD_def)
  qed
  show "present_result_handling d r s = Inr s"
    if "\<not> framebuffer_resized s \<and> suboptimal_swapchain_count s < 10
        \<and> (r = VK_SUCCESS \<or> r = VK_SUBOPTIMAL_KHR)"
  proof -
    from that have "\<not> 10 \<le> suboptimal_swapchain_count s" by (simp add: not_le)
    with that show ?thesis
      by (auto simp: present_result_handling_def SUBOPTIMAL_SWAPCHAIN_THRESHOLD_def)
  qed
next
  fix e s0 s'
  assume h: "draw_frame e s0 = Inr s' \<and> acquire_result e \<noteq> VK_ERROR_OUT_OF_DATE_KHR"
  from draw_frame_presented [of e s0 s'] h
  obtain s5 s6 where s5: "frame_until_present e (wait_and_acquire s0) = Inr s5"
    and s6: "present_result_handling (recreate_driver e) (present_result e) s5 = Inr s6"
    and s': "s' = s6\<lparr>current_frame := (current_frame s6 + 1) mod VKX_FRAMES_IN_FLIGHT\<rparr>"
    by blast
  from frame_until_present_Inr(6) [OF s5]
  have "VkQueuePresentKHR (swap_chain (vkx_swap_chain s0)) (acquired_image_index e)
               \<in> set (new_calls s0 s5)"
    by (auto simp: new_calls_def wait_and_acquire_simps)
  with s5 s6 s'
  show "\<exists>s5 s6. frame_until_present e (wait_and_acquire s0) = Inr s5
           \<and> VkQueuePresentKHR (swap_chain (vkx_swap_chain s0)) (acquired_image_index e)
               \<in> set (new_calls s0 s5)
           \<and> present_result_handling (recreate_driver e) (present_result e) s5 = Inr s6
           \<and> s' = s6\<lparr>current_frame := (current_frame s6 + 1) mod VKX_FRAMES_IN_FLIGHT\<rparr>"
    by blast
next
  fix e s0 s5
  assume "in_flight_fences s0 ! unat (current_frame s0) \<noteq> Unsignaled
        \<and> (acquire_result e = VK_SUCCESS \<or> acquire_result e = VK_SUBOPTIMAL_KHR)
        \<and> frame_until_present e (wait_and_acquire s0) = Inr s5"
  then show "draw_frame e s0
          = (case present_result_handling (recreate_driver e) (present_result e) s5 of
               Inl f \<Rightarrow> Inl f
             | Inr s6 \<Rightarrow>
                 Inr (s6\<lparr>current_frame := (current_frame s6 + 1) mod VKX_FRAMES_IN_FLIGHT\<rparr>))"
    by (auto simp: draw_frame_def Let_def)
qed

theorem present_result_precedence_witness:
  "framebuffer_resized example_resized_world
   \<and> present_result_handling example_driver VK_ERROR_DEVICE_LOST example_resized_world
       = vkx_recreate_swap_chain example_driver
           (example_resized_world\<lparr>framebuffer_resized := False\<rparr>)
   \<and> \<not> framebuffer_resized example_threshold_world
   \<and> 10 \<le> suboptimal_swapchain_count example_threshold_world
   \<and> present_result_handling example_driver VK_ERROR_DEVICE_LOST example_threshold_world
       = vkx_recreate_swap_chain example_driver
           (example_threshold_world\<lparr>suboptimal_swapchain_count := 0\<rparr>)
   \<and> \<not> framebuffer_resized example_world
   \<and> suboptimal_swapchain_count example_world < 10
   \<and> present_result_handling example_driver VK_ERROR_OUT_OF_DATE_KHR example_world
       = vkx_recreate_swap_chain example_driver example_world
   \<and> present_result_handling example_driver VK_ERROR_DEVICE_LOST example_world
       = Inl (Failed_to_present_swap_chain_image VK_ERROR_DEVICE_LOST)
   \<and> present_result_handling example_driver VK_SUBOPTIMAL_KHR example_world = Inr example_world
   \<and> (\<exists>s' s5 s6. draw_frame example_frame example_world = Inr s'
         \<and> frame_until_present example_frame (wait_and_acquire example_world) = Inr s5
         \<and> present_result_handling (recreate_driver example_frame)
              (present_result example_frame) s5 = Inr s6
         \<and> s' = s6\<lparr>current_frame := (current_frame s6 + 1) mod VKX_FRAMES_IN_FLIGHT\<rparr>)"
proof -
  have a: "framebuffer_resized example_resized_world"
    and b: "\<not> framebuffer_resized example_threshold_world"
      "10 \<le> suboptimal_swapchain_count example_threshold_world"
    and c: "\<not> framebuffer_resized example_world"
      "suboptimal_swapchain_count example_world < 10"
    and q: "acquire_result example_frame \<noteq> VK_ERROR_OUT_OF_DATE_KHR"
    by (simp_all add: example_resized_world_def example_threshold_world_def example_world_def
        example_frame_def)
  from example_frame_returns obtain s1
    where s1: "draw_frame example_frame example_world = Inr s1" ..
  note p1 = present_result_precedence [of example_resized_world example_driver
      VK_ERROR_DEVICE_LOST]
  note p2 = present_result_precedence [of example_threshold_world example_driver
      VK_ERROR_DEVICE_LOST]
  note p3 = present_result_precedence [of example_world example_driver
      VK_ERROR_OUT_OF_DATE_KHR]
  note p4 = present_result_precedence [of example_world example_driver VK_ERROR_DEVICE_LOST]
  note p5 = present_result_precedence [of example_world example_driver VK_SUBOPTIMAL_KHR]
  have r1: "present_result_handling example_driver VK_ERROR_DEVICE_LOST example_resized_world
       = vkx_recreate_swap_chain example_driver
           (example_resized_world\<lparr>framebuffer_resized := False\<rparr>)"
    using p1 a by blast
  have r2: "present_result_handling example_driver VK_ERROR_DEVICE_LOST example_threshold_world
       = vkx_recreate_swap_chain example_driver
           (example_threshold_world\<lparr>suboptimal_swapchain_count := 0\<rparr>)"
    using p2 b by blast
  have r3: "present_result_handling example_driver VK_ERROR_OUT_OF_DATE_KHR example_world
       = vkx_recreate_swap_chain example_driver example_world"
    using p3 c by blast
  have r4: "present_result_handling example_driver VK_ERROR_DEVICE_LOST example_world
       = Inl (Failed_to_present_swap_chain_image VK_ERROR_DEVICE_LOST)"
    using p4 c by simp
  have r5: "present_result_handling example_driver VK_SUBOPTIMAL_KHR example_world
       = Inr example_world"
    using p5 c by simp
  have r6: "\<exists>s5 s6. frame_until_present example_frame (wait_and_acquire example_world) = Inr s5
         \<and> present_result_handling (recreate_driver example_frame)
              (present_result example_frame) s5 = Inr s6
         \<and> s1 = s6\<lparr>current_frame := (current_frame s6 + 1) mod VKX_FRAMES_IN_FLIGHT\<rparr>"
    using p5 s1 q by blast
  from a b c r1 r2 r3 r4 r5 r6 s1 show ?thesis by blast
qed

section \<open>Handling of the acquire result\<close>

text \<open>
  C4. Let the wait on the fence of the current slot return. When acquire reports
  \<open>VK_ERROR_OUT_OF_DATE_KHR\<close>, \<open>draw_frame\<close> is the recreation of the swapchain on the
  state after wait and acquire: none of the frame's own calls is made (no fence reset, no
  draw recording, no fenced submission, no present; the recreation records and submits
  only its own layout transitions, without a fence), one recreation takes place, and the
  fence of the slot is signaled afterwards. Any result other than that one,
  \<open>VK_SUCCESS\<close> and \<open>VK_SUBOPTIMAL_KHR\<close> is fatal. A suboptimal acquire behaves exactly
  as a successful one: the fence is reset, the frame is recorded, submitted with the fence
  (which is pending afterwards) and presented. On every path that returns, no fence is
  left reset without a submission, provided none was before.
\<close>

theorem acquire_result_handling:
  assumes "in_flight_fences s ! unat (current_frame s) \<noteq> Unsignaled"
    and "unat (current_frame s) < length (in_flight_fences s)"
  shows "(acquire_result e = VK_ERROR_OUT_OF_DATE_KHR \<longrightarrow>
            draw_frame e s = vkx_recreate_swap_chain (recreate_driver e) (wait_and_acquire s)
            \<and> (\<forall>s'. draw_frame e s = Inr s' \<longrightarrow>
                  in_flight_fences s' ! unat (current_frame s) = Signaled
                  \<and> (\<forall>c\<in>set (new_calls s s'). \<not> frame_work_call c)
                  \<and> recreations (new_calls s s') = 1))
    \<and> (acquire_result e \<noteq> VK_ERROR_OUT_OF_DATE_KHR \<and> acquire_result e \<noteq> VK_SUCCESS
          \<and> acquire_result e \<noteq> VK_SUBOPTIMAL_KHR \<longrightarrow>
            draw_frame e s = Inl (Failed_to_acquire_swap_chain_image (acquire_result e)))
    \<and> (acquire_result e = VK_SUBOPTIMAL_KHR \<longrightarrow>
            draw_frame e s = draw_frame (e\<lparr>acquire_result := VK_SUCCESS\<rparr>) s
            \<and> (\<forall>s'. draw_frame e s = Inr s' \<longrightarrow>
                  VkResetFences (unat (current_frame s)) \<in> set (new_calls s s')
                  \<and> VkCmdDrawing (unat (current_frame s)) (acquired_image_index e)
                      \<in> set (new_calls s s')
                  \<and> VkQueueSubmit (unat (current_frame s)) (Some (unat (current_frame s)))
                      \<in> set (new_calls s s')
                  \<and> VkQueuePresentKHR (swap_chain (vkx_swap_chain s)) (acquired_image_index e)
                      \<in> set (new_calls s s')
                  \<and> in_flight_fences s' ! unat (current_frame s) = Pending))
    \<and> ((\<forall>i<length (in_flight_fences s). in_flight_fences s ! i \<noteq> Unsignaled) \<longrightarrow>
          (\<forall>s'. draw_frame e s = Inr s' \<longrightarrow>
             (\<forall>i<length (in_flight_fences s'). in_flight_fences s' ! i \<noteq> Unsignaled)))"
proof (intro conjI impI allI)
  assume stale: "acquire_result e = VK_ERROR_OUT_OF_DATE_KHR"
  show eq: "draw_frame e s = vkx_recreate_swap_chain (recreate_driver e) (wait_and_acquire s)"
    by (rule draw_frame_stale [OF assms(1) stale])
  fix s'
  assume ret: "draw_frame e s = Inr s'"
  with eq have rec: "vkx_recreate_swap_chain (recreate_driver e) (wait_and_acquire s) = Inr s'"
    by simp
  from vkx_recreate_swap_chain_frame(1) [OF rec] assms(2)
  show "in_flight_fences s' ! unat (current_frame s) = Signaled"
    by (simp add: wait_and_acquire_simps)
  from recreations_of_recreate [OF rec]
  obtain cs where cs: "calls s' = calls (wait_and_acquire s) @ cs" "recreations cs = 1"
    "\<forall>c\<in>set cs. \<not> frame_work_call c"
    by blast
  have new: "new_calls s s' = [VkWaitForFences (unat (current_frame s)),
      VkAcquireNextImageKHR (swap_chain (vkx_swap_chain s)) (unat (current_frame s))] @ cs"
    using cs(1) by (simp add: new_calls_def wait_and_acquire_simps)
  show "\<forall>c\<in>set (new_calls s s'). \<not> frame_work_call c"
    using cs(3) by (auto simp: new)
  show "recreations (new_calls s s') = 1"
    using cs(2) by (simp add: new recreations_def)
next
  assume "acquire_result e \<noteq> VK_ERROR_OUT_OF_DATE_KHR \<and> acquire_result e \<noteq> VK_SUCCESS
          \<and> acquire_result e \<noteq> VK_SUBOPTIMAL_KHR"
  with assms(1)
  show "draw_frame e s = Inl (Failed_to_acquire_swap_chain_image (acquire_result e))"
    by (simp add: draw_frame_def Let_def)
next
  assume sub: "acquire_result e = VK_SUBOPTIMAL_KHR"
  have "frame_until_present (e\<lparr>acquire_result := VK_SUCCESS\<rparr>) (wait_and_acquire s)
      = frame_until_present e (wait_and_acquire s)"
    by (simp add: frame_until_present_def record_command_buffer_def Let_def
        cong: sum.case_cong if_cong)
  with sub assms(1)
  show "draw_frame e s = draw_frame (e\<lparr>acquire_result := VK_SUCCESS\<rparr>) s"
    by (simp add: draw_frame_def Let_def cong: sum.case_cong)
  fix s'
  assume ret: "draw_frame e s = Inr s'"
  from sub have ns: "acquire_result e \<noteq> VK_ERROR_OUT_OF_DATE_KHR" by simp
  from draw_frame_presented [OF ret ns]
  obtain s5 s6 where s5: "frame_until_present e (wait_and_acquire s) = Inr s5"
    and s6: "present_result_handling (recreate_driver e) (present_result e) s5 = Inr s6"
    and s': "s' = s6\<lparr>current_frame := (current_frame s6 + 1) mod VKX_FRAMES_IN_FLIGHT\<rparr>"
    by blast
  from frame_until_present_Inr(6) [OF s5]
  obtain cs where cs: "calls s5 = calls (wait_and_acquire s) @ cs"
    "VkResetFences (unat (current_frame s)) \<in> set cs"
    "VkCmdDrawing (unat (current_frame s)) (acquired_image_index e) \<in> set cs"
    "VkQueueSubmit (unat (current_frame s)) (Some (unat (current_frame s))) \<in> set cs"
    "VkQueuePresentKHR (swap_chain (vkx_swap_chain s)) (acquired_image_index e) \<in> set cs"
    by (auto simp: wait_and_acquire_simps)
  from present_result_handling_calls [OF s6]
  obtain ds where ds: "calls s6 = calls s5 @ ds" by blast
  have new: "new_calls s s' = [VkWaitForFences (unat (current_frame s)),
      VkAcquireNextImageKHR (swap_chain (vkx_swap_chain s)) (unat (current_frame s))]
      @ cs @ ds"
    using cs(1) ds s' by (simp add: new_calls_def wait_and_acquire_simps)
  show "VkResetFences (unat (current_frame s)) \<in> set (new_calls s s')"
    using cs(2) by (simp add: new)
  show "VkCmdDrawing (unat (current_frame s)) (acquired_image_index e) \<in> set (new_calls s s')"
    using cs(3) by (simp add: new)
  show "VkQueueSubmit (unat (current_frame s)) (Some (unat (current_frame s)))
      \<in> set (new_calls s s')"
    using cs(4) by (simp add: new)
  show "VkQueuePresentKHR (swap_chain (vkx_swap_chain s)) (acquired_image_index e)
      \<in> set (new_calls s s')"
    using cs(5) by (simp add: new)
  from frame_until_present_Inr(2) [OF s5] present_result_handling_Inr(2) [OF s6] s' assms(2)
  show "in_flight_fences s' ! unat (current_frame s) = Pending"
    by (simp add: wait_and_acquire_simps)
next
  assume inv: "\<forall>i<length (in_flight_fences s). in_flight_fences s ! i \<noteq> Unsignaled"
  fix s' i
  assume ret: "draw_frame e s = Inr s'" and i: "i < length (in_flight_fences s')"
  from draw_frame_no_fence_left_unsignaled [OF ret inv] i
  show "in_flight_fences s' ! i \<noteq> Unsignaled" by simp
qed

theorem acquire_result_handling_witness:
  "in_flight_fences example_world ! unat (current_frame example_world) \<noteq> Unsignaled
   \<and> unat (current_frame example_world) < length (in_flight_fences example_world)
   \<and> (\<exists>s'. draw_frame example_stale_frame example_world = Inr s'
         \<and> in_flight_fences s' ! 0 = Signaled
         \<and> (\<forall>c\<in>set (new_calls example_world s'). \<not> frame_work_call c)
         \<and> recreations (new_calls example_world s') = 1)
   \<and> draw_frame example_lost_frame example_world
       = Inl (Failed_to_acquire_swap_chain_image VK_ERROR_DEVICE_LOST)
   \<and> (\<exists>s'. draw_frame example_suboptimal_acquire_frame example_world = Inr s'
         \<and> VkQueuePresentKHR 3 1 \<in> set (new_calls example_world s')
         \<and> in_flight_fences s' ! 0 = Pending
         \<and> (\<forall>i<length (in_flight_fences s'). in_flight_fences s' ! i \<noteq> Unsignaled))"
proof -
  have f: "in_flight_fences example_world ! unat (current_frame example_world) \<noteq> Unsignaled"
    and l: "unat (current_frame example_world) < length (in_flight_fences example_world)"
    by (simp_all add: example_world_def)
  have v: "unat (current_frame example_world) = 0"
    "swap_chain (vkx_swap_chain example_world) = 3"
    "acquire_result example_stale_frame = VK_ERROR_OUT_OF_DATE_KHR"
    "acquire_result example_lost_frame = VK_ERROR_DEVICE_LOST"
    "acquire_result example_suboptimal_acquire_frame = VK_SUBOPTIMAL_KHR"
    "acquired_image_index example_suboptimal_acquire_frame = 1"
    by (simp_all add: example_world_def example_stale_frame_def example_lost_frame_def
        example_suboptimal_acquire_frame_def example_frame_def)
  from example_stale_frame_returns obtain s1
    where s1: "draw_frame example_stale_frame example_world = Inr s1" ..
  from example_suboptimal_acquire_frame_returns obtain s2
    where s2: "draw_frame example_suboptimal_acquire_frame example_world = Inr s2" ..
  from acquire_result_handling [OF f l, of example_stale_frame] v s1
  have a: "in_flight_fences s1 ! 0 = Signaled
         \<and> (\<forall>c\<in>set (new_calls example_world s1). \<not> frame_work_call c)
         \<and> recreations (new_calls example_world s1) = 1"
    by simp
  from acquire_result_handling [OF f l, of example_lost_frame] v
  have b: "draw_frame example_lost_frame example_world
       = Inl (Failed_to_acquire_swap_chain_image VK_ERROR_DEVICE_LOST)"
    by simp
  have inv: "\<forall>i<length (in_flight_fences example_world).
      in_flight_fences example_world ! i \<noteq> Unsignaled"
    by (simp add: example_world_def less_Suc_eq)
  from acquire_result_handling [OF f l, of example_suboptimal_acquire_frame] v s2 inv
  have c: "VkQueuePresentKHR 3 1 \<in> set (new_calls example_world s2)
         \<and> in_flight_fences s2 ! 0 = Pending
         \<and> (\<forall>i<length (in_flight_fences s2). in_flight_fences s2 ! i \<noteq> Unsignaled)"
    by simp
  from f l s1 a b s2 c show ?thesis by blast
qed

section \<open>Surface format and present mode\<close>

lemma choose_surface_format_loop_eq:
  "choose_surface_format_loop fmts dflt =
     (if \<lparr>format = VK_FORMAT_B8G8R8A8_SRGB, colorSpace = VK_COLOR_SPACE_SRGB_NONLINEAR_KHR\<rparr>
           \<in> set fmts
      then \<lparr>format = VK_FORMAT_B8G8R8A8_SRGB, colorSpace = VK_COLOR_SPACE_SRGB_NONLINEAR_KHR\<rparr>
      else dflt)"
  by (induction fmts) auto

lemma choose_present_mode_loop_eq:
  "choose_present_mode_loop modes dflt =
     (if VK_PRESENT_MODE_MAILBOX_KHR \<in> set modes then VK_PRESENT_MODE_MAILBOX_KHR else dflt)"
  by (induction modes) auto

text \<open>
  C6. For a non-empty list of supported formats and a non-empty list of present modes, the
  structure handed to \<open>vkCreateSwapchainKHR\<close> holds the pair B8G8R8A8_SRGB with
  SRGB_NONLINEAR when that pair occurs anywhere in the format list and the format at index 0
  otherwise, and the present mode MAILBOX when it occurs anywhere in the list of present
  modes and FIFO otherwise. A successful creation makes the call with that structure and
  stores its format as the image format of the swapchain.
\<close>

theorem swapchain_format_and_present_mode:
  assumes "formats (surface_support d) \<noteq> []"
    and "present_modes (surface_support d) \<noteq> []"
  shows "(ci_imageFormat (swapchain_create_info d), ci_imageColorSpace (swapchain_create_info d))
       = (if \<lparr>format = VK_FORMAT_B8G8R8A8_SRGB, colorSpace = VK_COLOR_SPACE_SRGB_NONLINEAR_KHR\<rparr>
               \<in> set (formats (surface_support d))
          then (VK_FORMAT_B8G8R8A8_SRGB, VK_COLOR_SPACE_SRGB_NONLINEAR_KHR)
          else (format (formats (surface_support d) ! 0),
                colorSpace (formats (surface_support d) ! 0)))
    \<and> ci_presentMode (swapchain_create_info d)
       = (if VK_PRESENT_MODE_MAILBOX_KHR \<in> set (present_modes (surface_support d))
          then VK_PRESENT_MODE_MAILBOX_KHR else VK_PRESENT_MODE_FIFO_KHR)
    \<and> (\<forall>create_depth_image s s'.
          vkx_create_swap_chain d create_depth_image s = Inr s' \<longrightarrow>
            image_format (vkx_swap_chain s') = ci_imageFormat (swapchain_create_info d)
            \<and> VkCreateSwapchainKHR (swapchain_create_info d) \<in> set (new_calls s s'))"
proof (intro conjI allI impI)
  show "(ci_imageFormat (swapchain_create_info d), ci_imageColorSpace (swapchain_create_info d))
       = (if \<lparr>format = VK_FORMAT_B8G8R8A8_SRGB, colorSpace = VK_COLOR_SPACE_SRGB_NONLINEAR_KHR\<rparr>
               \<in> set (formats (surface_support d))
          then (VK_FORMAT_B8G8R8A8_SRGB, VK_COLOR_SPACE_SRGB_NONLINEAR_KHR)
          else (format (formats (surface_support d) ! 0),
                colorSpace (formats (surface_support d) ! 0)))"
    by (simp add: swapchain_create_info_def Let_def choose_surface_format_def
        choose_surface_format_loop_eq)
  show "ci_presentMode (swapchain_create_info d)
       = (if VK_PRESENT_MODE_MAILBOX_KHR \<in> set (present_modes (surface_support d))
          then VK_PRESENT_MODE_MAILBOX_KHR else VK_PRESENT_MODE_FIFO_KHR)"
    by (simp add: swapchain_create_info_def Let_def choose_present_mode_def
        choose_present_mode_loop_eq)
next
  fix create_depth_image s s'
  assume ok: "vkx_create_swap_chain d create_depth_image s = Inr s'"
  show "image_format (vkx_swap_chain s') = ci_imageFormat (swapchain_create_info d)"
    by (rule vkx_create_swap_chain_Inr(3) [OF ok])
  from vkx_create_swap_chain_calls [OF ok]
  show "VkCreateSwapchainKHR (swapchain_create_info d) \<in> set (new_calls s s')"
    by (auto simp: new_calls_def)
qed

theorem swapchain_format_and_present_mode_witness:
  "formats (surface_support example_driver) \<noteq> []
   \<and> present_modes (surface_support example_driver) \<noteq> []
   \<and> ci_imageFormat (swapchain_create_info example_driver) = VK_FORMAT_B8G8R8A8_SRGB
   \<and> ci_imageColorSpace (swapchain_create_info example_driver) = VK_COLOR_SPACE_SRGB_NONLINEAR_KHR
   \<and> ci_presentMode (swapchain_create_info example_driver) = VK_PRESENT_MODE_MAILBOX_KHR
   \<and> formats (surface_support example_fallback_driver) \<noteq> []
   \<and> present_modes (surface_support example_fallback_driver) \<noteq> []
   \<and> ci_imageFormat (swapchain_create_info example_fallback_driver) = VK_FORMAT_R8G8B8A8_UNORM
   \<and> ci_presentMode (swapchain_create_info example_fallback_driver) = VK_PRESENT_MODE_FIFO_KHR"
proof -
  have f1: "formats (surface_support example_driver) \<noteq> []"
    and p1: "present_modes (surface_support example_driver) \<noteq> []"
    by (simp_all add: example_driver_def)
  have f2: "formats (surface_support example_fallback_driver) \<noteq> []"
    and p2: "present_modes (surface_support example_fallback_driver) \<noteq> []"
    by (simp_all add: example_fallback_driver_def example_driver_def)
  have m1: "\<lparr>format = VK_FORMAT_B8G8R8A8_SRGB, colorSpace = VK_COLOR_SPACE_SRGB_NONLINEAR_KHR\<rparr>
      \<in> set (formats (surface_support example_driver))"
    and m2: "VK_PRESENT_MODE_MAILBOX_KHR \<in> set (present_modes (surface_support example_driver))"
    by (simp_all add: example_driver_def)
  have n1: "\<lparr>format = VK_FORMAT_B8G8R8A8_SRGB, colorSpace = VK_COLOR_SPACE_SRGB_NONLINEAR_KHR\<rparr>
      \<notin> set (formats (surface_support example_fallback_driver))"
    and n2: "VK_PRESENT_MODE_MAILBOX_KHR
      \<notin> set (present_modes (surface_support example_fallback_driver))"
    and h: "format (formats (surface_support example_fallback_driver) ! 0)
      = VK_FORMAT_R8G8B8A8_UNORM"
    by (simp_all add: example_fallback_driver_def example_driver_def)
  from swapchain_format_and_present_mode [OF f1 p1] swapchain_format_and_present_mode [OF f2 p2]
    f1 p1 f2 p2 m1 m2 n1 n2 h
  show ?thesis by simp
qed

section \<open>Requested image count\<close>

lemma choose_image_count_eq:
  "choose_image_count caps =
     (if maxImageCount caps \<noteq> 0 then min (minImageCount caps + 1) (maxImageCount caps)
      else minImageCount caps + 1)"
  by (auto simp: choose_image_count_def Let_def min_def word_greater_zero_iff)

lemma unat_plus_one:
  "w \<noteq> - 1 \<Longrightarrow> unat (w + 1) = unat w + 1" for w :: u32
proof -
  assume "w \<noteq> - 1"
  then have "1 + w \<noteq> 0"
    by (simp add: eq_neg_iff_add_eq_0 add.commute)
  from unatSuc [OF this] show ?thesis
    by (simp add: add.commute)
qed

text \<open>
  C7. For all surface capabilities the requested image count is \<open>minImageCount + 1\<close>
  in \<open>uint32_t\<close> arithmetic, clamped down to \<open>maxImageCount\<close> when that is not zero
  and left as it is when \<open>maxImageCount\<close> is zero. Unless \<open>minImageCount\<close> is the
  largest 32-bit value, the addition does not wrap and the same holds of the numbers read
  as naturals. The instances below give 3 for (2, 0) and 2 for (2, 2).
\<close>

theorem requested_image_count:
  "ci_minImageCount (swapchain_create_info d)
     = (if maxImageCount (capabilities (surface_support d)) \<noteq> 0
        then min (minImageCount (capabilities (surface_support d)) + 1)
                 (maxImageCount (capabilities (surface_support d)))
        else minImageCount (capabilities (surface_support d)) + 1)
   \<and> (minImageCount (capabilities (surface_support d)) \<noteq> - 1 \<longrightarrow>
        unat (ci_minImageCount (swapchain_create_info d))
          = (if unat (maxImageCount (capabilities (surface_support d))) \<noteq> 0
             then min (unat (minImageCount (capabilities (surface_support d))) + 1)
                      (unat (maxImageCount (capabilities (surface_support d))))
             else unat (minImageCount (capabilities (surface_support d))) + 1))
   \<and> (\<forall>create_depth_image s s'.
          vkx_create_swap_chain d create_depth_image s = Inr s' \<longrightarrow>
            VkCreateSwapchainKHR (swapchain_create_info d) \<in> set (new_calls s s'))"
proof (intro conjI allI impI)
  show eq: "ci_minImageCount (swapchain_create_info d)
     = (if maxImageCount (capabilities (surface_support d)) \<noteq> 0
        then min (minImageCount (capabilities (surface_support d)) + 1)
                 (maxImageCount (capabilities (surface_support d)))
        else minImageCount (capabilities (surface_support d)) + 1)"
    by (simp add: swapchain_create_info_def Let_def choose_image_count_eq)
  assume "minImageCount (capabilities (surface_support d)) \<noteq> - 1"
  then have "unat (minImageCount (capabilities (surface_support d)) + 1)
      = unat (minImageCount (capabilities (surface_support d))) + 1"
    by (rule unat_plus_one)
  then show "unat (ci_minImageCount (swapchain_create_info d))
          = (if unat (maxImageCount (capabilities (surface_support d))) \<noteq> 0
             then min (unat (minImageCount (capabilities (surface_support d))) + 1)
                      (unat (maxImageCount (capabilities (surface_support d))))
             else unat (minImageCount (capabilities (surface_support d))) + 1)"
    unfolding eq by (auto simp: min_def word_le_nat_alt unat_eq_0)
next
  fix create_depth_image s s'
  assume ok: "vkx_create_swap_chain d create_depth_image s = Inr s'"
  from vkx_create_swap_chain_calls [OF ok]
  show "VkCreateSwapchainKHR (swapchain_create_info d) \<in> set (new_calls s s')"
    by (auto simp: new_calls_def)
qed

theorem requested_image_count_witness:
  "minImageCount (capabilities (surface_support example_driver)) = 2
   \<and> maxImageCount (capabilities (surface_support example_driver)) = 0
   \<and> ci_minImageCount (swapchain_create_info example_driver) = 3
   \<and> unat (ci_minImageCount (swapchain_create_info example_driver)) = 3
   \<and> minImageCount (capabilities (surface_support example_fallback_driver)) = 2
   \<and> maxImageCount (capabilities (surface_support example_fallback_driver)) = 2
   \<and> ci_minImageCount (swapchain_create_info example_fallback_driver) = 2
   \<and> unat (ci_minImageCount (swapchain_create_info example_fallback_driver)) = 2"
proof -
  have a: "minImageCount (capabilities (surface_support example_driver)) = 2"
    "maxImageCount (capabilities (surface_support example_driver)) = 0"
    by (simp_all add: example_driver_def)
  have b: "minImageCount (capabilities (surface_support example_fallback_driver)) = 2"
    "maxImageCount (capabilities (surface_support example_fallback_driver)) = 2"
    by (simp_all add: example_fallback_driver_def example_driver_def)
  from requested_image_count [of example_driver] a
  have c: "ci_minImageCount (swapchain_create_info example_driver) = 3" by simp
  from requested_image_count [of example_fallback_driver] b
  have d: "ci_minImageCount (swapchain_create_info example_fallback_driver) = 2" by simp
  from a b c d show ?thesis by simp
qed

section \<open>Swapchain recreation\<close>

lemma vkx_cleanup_swap_chain_calls_exact:
  "calls (vkx_cleanup_swap_chain s)
     = calls s
       @ (if has_depth_image (vkx_swap_chain s)
          then (if view (depth_image (vkx_swap_chain s)) = VK_NULL_HANDLE then []
                else [VkDestroyImageView (view (depth_image (vkx_swap_chain s)))])
               @ [VkDestroyImage (image (depth_image (vkx_swap_chain s))),
                  VkFreeMemory (image_memory (depth_image (vkx_swap_chain s)))]
          else [])
       @ map (\<lambda>i. VkDestroyImageView (image_views (vkx_swap_chain s) ! i))
           [0..<images_count (vkx_swap_chain s)]
       @ [VkDestroySwapchainKHR (swap_chain (vkx_swap_chain s))]"
  by (simp add: vkx_cleanup_swap_chain_def Let_def vkx_cleanup_image_def split: prod.splits)

lemma vkx_recreate_swap_chain_calls_exact:
  assumes "vkx_recreate_swap_chain d s = Inr s'"
  shows "\<exists>cs. calls s' = calls s @ [VkDeviceWaitIdle]
              @ (if has_depth_image (vkx_swap_chain s)
                 then (if view (depth_image (vkx_swap_chain s)) = VK_NULL_HANDLE then []
                       else [VkDestroyImageView (view (depth_image (vkx_swap_chain s)))])
                      @ [VkDestroyImage (image (depth_image (vkx_swap_chain s))),
                         VkFreeMemory (image_memory (depth_image (vkx_swap_chain s)))]
                 else [])
              @ map (\<lambda>i. VkDestroyImageView (image_views (vkx_swap_chain s) ! i))
                  [0..<images_count (vkx_swap_chain s)]
              @ [VkDestroySwapchainKHR (swap_chain (vkx_swap_chain s)),
                 VkCreateSwapchainKHR (swapchain_create_info d)] @ cs
            \<and> (\<forall>c\<in>set cs. creation_call c)"
proof -
  let ?s1 = "s\<lparr>calls := calls s @ [VkDeviceWaitIdle]\<rparr>"
  from vkx_create_swap_chain_calls [OF assms [unfolded vkx_recreate_swap_chain_unfold]]
  obtain cs where cs: "calls s' = calls (vkx_cleanup_swap_chain ?s1)
        @ VkCreateSwapchainKHR (swapchain_create_info d) # cs"
      "\<forall>c\<in>set cs. creation_call c"
    by auto
  from cs(1) have "calls s' = calls s @ [VkDeviceWaitIdle]
              @ (if has_depth_image (vkx_swap_chain s)
                 then (if view (depth_image (vkx_swap_chain s)) = VK_NULL_HANDLE then []
                       else [VkDestroyImageView (view (depth_image (vkx_swap_chain s)))])
                      @ [VkDestroyImage (image (depth_image (vkx_swap_chain s))),
                         VkFreeMemory (image_memory (depth_image (vkx_swap_chain s)))]
                 else [])
              @ map (\<lambda>i. VkDestroyImageView (image_views (vkx_swap_chain s) ! i))
                  [0..<images_count (vkx_swap_chain s)]
              @ [VkDestroySwapchainKHR (swap_chain (vkx_swap_chain s)),
                 VkCreateSwapchainKHR (swapchain_create_info d)] @ cs"
    by (simp add: vkx_cleanup_swap_chain_calls_exact)
  with cs(2) show ?thesis by blast
qed

lemma recreate_observable:
  assumes "vkx_recreate_swap_chain d u = Inr u'"
  shows "extent (vkx_swap_chain u')
        = vkx_choose_swap_extent (window_size d) (capabilities (surface_support d))"
    and "image_format (vkx_swap_chain u')
        = format (choose_surface_format (formats (surface_support d)))"
    and "images_count (vkx_swap_chain u') = length (swapchain_images d)"
  using vkx_create_swap_chain_Inr(3,4,5) [OF assms [unfolded vkx_recreate_swap_chain_unfold]]
  by (simp_all add: swapchain_create_info_def Let_def)

lemma choose_swap_extent_window:
  assumes "width (currentExtent caps) = 0xFFFFFFFF \<longrightarrow> w2 = w1"
  shows "vkx_choose_swap_extent w2 caps = vkx_choose_swap_extent w1 caps"
  using assms by (auto simp: vkx_choose_swap_extent_def)

lemma example_depth_recreate_returns:
  "\<exists>s'. vkx_recreate_swap_chain example_depth_driver example_depth_world = Inr s'"
  by (simp add: example_eval example_depth_driver_def example_depth_world_def
      create_depth_resources_def vkx_find_depth_format_def vkx_create_image_def
      vkx_find_memory_type_def example_memory_properties_def
      vkx_transition_image_layout_tmp_buffer_def
      VK_FORMAT_FEATURE_DEPTH_STENCIL_ATTACHMENT_BIT_def VK_MEMORY_PROPERTY_DEVICE_LOCAL_BIT_def
      vkx_cleanup_image_def VK_NULL_HANDLE_def)

text \<open>
  C8 (as amended). A successful \<open>vkx_recreate_swap_chain\<close> makes exactly these calls, in
  this order: \<open>vkDeviceWaitIdle\<close>; when the old swapchain has a depth image, the
  destruction of its view (if not null), of its image and of its memory; the destruction
  of every image view of the old swapchain; the destruction of the old swapchain; then the
  calls of \<open>vkx_create_swap_chain\<close>, run with the \<open>has_depth_image\<close> flag of the old
  swapchain, which the new one keeps. Extent, image format and image count of the result
  do not depend on the prior state. They are determined by what the surface and the driver
  report now: the extent by the capabilities, and by the window size only when the surface
  reports the extent 0xFFFFFFFF; the format by the supported formats; the count by the
  images the driver creates for the new swapchain. Two recreations that agree on these
  give the same three values, and recreating once more under the same answers succeeds
  and gives them again.
\<close>

theorem recreate_swap_chain_idempotent:
  assumes "vkx_recreate_swap_chain d s = Inr s'"
  shows "(\<exists>cs. calls s' = calls s @ [VkDeviceWaitIdle]
              @ (if has_depth_image (vkx_swap_chain s)
                 then (if view (depth_image (vkx_swap_chain s)) = VK_NULL_HANDLE then []
                       else [VkDestroyImageView (view (depth_image (vkx_swap_chain s)))])
                      @ [VkDestroyImage (image (depth_image (vkx_swap_chain s))),
                         VkFreeMemory (image_memory (depth_image (vkx_swap_chain s)))]
                 else [])
              @ map (\<lambda>i. VkDestroyImageView (image_views (vkx_swap_chain s) ! i))
                  [0..<images_count (vkx_swap_chain s)]
              @ [VkDestroySwapchainKHR (swap_chain (vkx_swap_chain s)),
                 VkCreateSwapchainKHR (swapchain_create_info d)] @ cs
            \<and> (\<forall>c\<in>set cs. creation_call c))
    \<and> (vkx_recreate_swap_chain d s =
         vkx_create_swap_chain d (has_depth_image (vkx_swap_chain s))
           (vkx_cleanup_swap_chain (s\<lparr>calls := calls s @ [VkDeviceWaitIdle]\<rparr>)))
    \<and> (has_depth_image (vkx_swap_chain s') = has_depth_image (vkx_swap_chain s))
    \<and> (extent (vkx_swap_chain s')
        = vkx_choose_swap_extent (window_size d) (capabilities (surface_support d)))
    \<and> (width (currentExtent (capabilities (surface_support d))) \<noteq> 0xFFFFFFFF \<longrightarrow>
          extent (vkx_swap_chain s') = currentExtent (capabilities (surface_support d)))
    \<and> (image_format (vkx_swap_chain s')
        = format (choose_surface_format (formats (surface_support d))))
    \<and> (images_count (vkx_swap_chain s') = length (swapchain_images d))
    \<and> (\<forall>t t'. vkx_recreate_swap_chain d t = Inr t' \<longrightarrow>
          extent (vkx_swap_chain t') = extent (vkx_swap_chain s')
          \<and> image_format (vkx_swap_chain t') = image_format (vkx_swap_chain s')
          \<and> images_count (vkx_swap_chain t') = images_count (vkx_swap_chain s'))
    \<and> (\<forall>d2 t t'. vkx_recreate_swap_chain d2 t = Inr t'
            \<and> surface_support d2 = surface_support d
            \<and> swapchain_images d2 = swapchain_images d
            \<and> (width (currentExtent (capabilities (surface_support d))) = 0xFFFFFFFF
                 \<longrightarrow> window_size d2 = window_size d) \<longrightarrow>
          extent (vkx_swap_chain t') = extent (vkx_swap_chain s')
          \<and> image_format (vkx_swap_chain t') = image_format (vkx_swap_chain s')
          \<and> images_count (vkx_swap_chain t') = images_count (vkx_swap_chain s'))
    \<and> (\<exists>s''. vkx_recreate_swap_chain d s' = Inr s''
          \<and> extent (vkx_swap_chain s'') = extent (vkx_swap_chain s')
          \<and> image_format (vkx_swap_chain s'') = image_format (vkx_swap_chain s')
          \<and> images_count (vkx_swap_chain s'') = images_count (vkx_swap_chain s'))"
proof -
  note obs = recreate_observable
  have depth: "has_depth_image (vkx_swap_chain s') = has_depth_image (vkx_swap_chain s)"
    by (rule vkx_recreate_swap_chain_frame(5) [OF assms])
  have again: "\<exists>s''. vkx_recreate_swap_chain d s' = Inr s''"
  proof -
    have "isl (vkx_recreate_swap_chain d s') = isl (vkx_recreate_swap_chain d s)"
      unfolding vkx_recreate_swap_chain_unfold depth
      by (rule vkx_create_swap_chain_isl)
    with assms have "\<not> isl (vkx_recreate_swap_chain d s')" by simp
    then show ?thesis by (cases "vkx_recreate_swap_chain d s'") simp_all
  qed
  then obtain s'' where s'': "vkx_recreate_swap_chain d s' = Inr s''" ..
  show ?thesis
  proof (intro conjI)
    show "\<exists>cs. calls s' = calls s @ [VkDeviceWaitIdle]
              @ (if has_depth_image (vkx_swap_chain s)
                 then (if view (depth_image (vkx_swap_chain s)) = VK_NULL_HANDLE then []
                       else [VkDestroyImageView (view (depth_image (vkx_swap_chain s)))])
                      @ [VkDestroyImage (image (depth_image (vkx_swap_chain s))),
                         VkFreeMemory (image_memory (depth_image (vkx_swap_chain s)))]
                 else [])
              @ map (\<lambda>i. VkDestroyImageView (image_views (vkx_swap_chain s) ! i))
                  [0..<images_count (vkx_swap_chain s)]
              @ [VkDestroySwapchainKHR (swap_chain (vkx_swap_chain s)),
                 VkCreateSwapchainKHR (swapchain_create_info d)] @ cs
            \<and> (\<forall>c\<in>set cs. creation_call c)"
      by (rule vkx_recreate_swap_chain_calls_exact [OF assms])
    show "vkx_recreate_swap_chain d s =
         vkx_create_swap_chain d (has_depth_image (vkx_swap_chain s))
           (vkx_cleanup_swap_chain (s\<lparr>calls := calls s @ [VkDeviceWaitIdle]\<rparr>))"
      by (rule vkx_recreate_swap_chain_unfold)
    show "has_depth_image (vkx_swap_chain s') = has_depth_image (vkx_swap_chain s)"
      by (rule depth)
    show "extent (vkx_swap_chain s')
        = vkx_choose_swap_extent (window_size d) (capabilities (surface_support d))"
      by (rule obs(1) [OF assms])
    show "width (currentExtent (capabilities (surface_support d))) \<noteq> 0xFFFFFFFF \<longrightarrow>
          extent (vkx_swap_chain s') = currentExtent (capabilities (surface_support d))"
      using obs(1) [OF assms] by (simp add: vkx_choose_swap_extent_def)
    show "image_format (vkx_swap_chain s')
        = format (choose_surface_format (formats (surface_support d)))"
      by (rule obs(2) [OF assms])
    show "images_count (vkx_swap_chain s') = length (swapchain_images d)"
      by (rule obs(3) [OF assms])
    show "\<forall>t t'. vkx_recreate_swap_chain d t = Inr t' \<longrightarrow>
          extent (vkx_swap_chain t') = extent (vkx_swap_chain s')
          \<and> image_format (vkx_swap_chain t') = image_format (vkx_swap_chain s')
          \<and> images_count (vkx_swap_chain t') = images_count (vkx_swap_chain s')"
      using obs [OF assms] obs by simp
    show "\<forall>d2 t t'. vkx_recreate_swap_chain d2 t = Inr t'
            \<and> surface_support d2 = surface_support d
            \<and> swapchain_images d2 = swapchain_images d
            \<and> (width (currentExtent (capabilities (surface_support d))) = 0xFFFFFFFF
                 \<longrightarrow> window_size d2 = window_size d) \<longrightarrow>
          extent (vkx_swap_chain t') = extent (vkx_swap_chain s')
          \<and> image_format (vkx_swap_chain t') = image_format (vkx_swap_chain s')
          \<and> images_count (vkx_swap_chain t') = images_count (vkx_swap_chain s')"
    proof (intro allI impI)
      fix d2 t t'
      assume h: "vkx_recreate_swap_chain d2 t = Inr t'
            \<and> surface_support d2 = surface_support d
            \<and> swapchain_images d2 = swapchain_images d
            \<and> (width (currentExtent (capabilities (surface_support d))) = 0xFFFFFFFF
                 \<longrightarrow> window_size d2 = window_size d)"
      then have rec: "vkx_recreate_swap_chain d2 t = Inr t'" by simp
      from h have "vkx_choose_swap_extent (window_size d2) (capabilities (surface_support d))
          = vkx_choose_swap_extent (window_size d) (capabilities (surface_support d))"
        by (intro choose_swap_extent_window) simp
      with obs [OF rec] obs [OF assms] h
      show "extent (vkx_swap_chain t') = extent (vkx_swap_chain s')
          \<and> image_format (vkx_swap_chain t') = image_format (vkx_swap_chain s')
          \<and> images_count (vkx_swap_chain t') = images_count (vkx_swap_chain s')"
        by simp
    qed
    show "\<exists>s''. vkx_recreate_swap_chain d s' = Inr s''
          \<and> extent (vkx_swap_chain s'') = extent (vkx_swap_chain s')
          \<and> image_format (vkx_swap_chain s'') = image_format (vkx_swap_chain s')
          \<and> images_count (vkx_swap_chain s'') = images_count (vkx_swap_chain s')"
      using s'' obs [OF assms] obs [OF s''] by simp
  qed
qed

theorem recreate_swap_chain_idempotent_witness:
  "vkx_recreate_swap_chain example_driver example_world = Inr example_world_recreated
   \<and> has_depth_image (vkx_swap_chain example_world_recreated)
       = has_depth_image (vkx_swap_chain example_world)
   \<and> extent (vkx_swap_chain example_world_recreated) = \<lparr>width = 800, height = 600\<rparr>
   \<and> image_format (vkx_swap_chain example_world_recreated) = VK_FORMAT_B8G8R8A8_SRGB
   \<and> images_count (vkx_swap_chain example_world_recreated) = 3
   \<and> (\<exists>s''. vkx_recreate_swap_chain example_driver example_world_recreated = Inr s''
         \<and> extent (vkx_swap_chain s'') = \<lparr>width = 800, height = 600\<rparr>
         \<and> image_format (vkx_swap_chain s'') = VK_FORMAT_B8G8R8A8_SRGB
         \<and> images_count (vkx_swap_chain s'') = 3)
   \<and> has_depth_image (vkx_swap_chain example_depth_world)
   \<and> (\<exists>s' cs. vkx_recreate_swap_chain example_depth_driver example_depth_world = Inr s'
         \<and> has_depth_image (vkx_swap_chain s')
         \<and> calls s' = [VkDeviceWaitIdle, VkDestroyImageView 42, VkDestroyImage 40,
                        VkFreeMemory 41, VkDestroyImageView 14, VkDestroyImageView 15,
                        VkDestroySwapchainKHR 3,
                        VkCreateSwapchainKHR (swapchain_create_info example_depth_driver)] @ cs
         \<and> (\<forall>c\<in>set cs. creation_call c)
         \<and> extent (vkx_swap_chain s') = \<lparr>width = 800, height = 600\<rparr>
         \<and> images_count (vkx_swap_chain s') = 3)"
proof -
  have e: "extent (vkx_swap_chain example_world_recreated) = \<lparr>width = 800, height = 600\<rparr>"
    "image_format (vkx_swap_chain example_world_recreated) = VK_FORMAT_B8G8R8A8_SRGB"
    "images_count (vkx_swap_chain example_world_recreated) = 3"
    by (simp_all add: example_world_recreated_def)
  from recreate_swap_chain_idempotent [OF example_recreated] example_recreated e
  have first: "vkx_recreate_swap_chain example_driver example_world = Inr example_world_recreated
   \<and> has_depth_image (vkx_swap_chain example_world_recreated)
       = has_depth_image (vkx_swap_chain example_world)
   \<and> extent (vkx_swap_chain example_world_recreated) = \<lparr>width = 800, height = 600\<rparr>
   \<and> image_format (vkx_swap_chain example_world_recreated) = VK_FORMAT_B8G8R8A8_SRGB
   \<and> images_count (vkx_swap_chain example_world_recreated) = 3
   \<and> (\<exists>s''. vkx_recreate_swap_chain example_driver example_world_recreated = Inr s''
         \<and> extent (vkx_swap_chain s'') = \<lparr>width = 800, height = 600\<rparr>
         \<and> image_format (vkx_swap_chain s'') = VK_FORMAT_B8G8R8A8_SRGB
         \<and> images_count (vkx_swap_chain s'') = 3)"
    by auto
  from example_depth_recreate_returns obtain s1
    where s1: "vkx_recreate_swap_chain example_depth_driver example_depth_world = Inr s1" ..
  have w: "has_depth_image (vkx_swap_chain example_depth_world)"
    "view (depth_image (vkx_swap_chain example_depth_world)) = 42"
    "image (depth_image (vkx_swap_chain example_depth_world)) = 40"
    "image_memory (depth_image (vkx_swap_chain example_depth_world)) = 41"
    "image_views (vkx_swap_chain example_depth_world) = [14, 15]"
    "images_count (vkx_swap_chain example_depth_world) = 2"
    "swap_chain (vkx_swap_chain example_depth_world) = 3"
    "calls example_depth_world = []"
    by (simp_all add: example_depth_world_def example_world_def)
  have dv: "vkx_choose_swap_extent (window_size example_depth_driver)
        (capabilities (surface_support example_depth_driver)) = \<lparr>width = 800, height = 600\<rparr>"
    "length (swapchain_images example_depth_driver) = 3"
    by (simp_all add: example_depth_driver_def example_driver_def vkx_choose_swap_extent_def)
  note t = recreate_swap_chain_idempotent [OF s1]
  from t obtain cs where cs: "calls s1 = [VkDeviceWaitIdle, VkDestroyImageView 42,
        VkDestroyImage 40, VkFreeMemory 41, VkDestroyImageView 14, VkDestroyImageView 15,
        VkDestroySwapchainKHR 3,
        VkCreateSwapchainKHR (swapchain_create_info example_depth_driver)] @ cs"
      "\<forall>c\<in>set cs. creation_call c"
    by (auto simp: w VK_NULL_HANDLE_def upt_conv_Cons)
  from t w(1) have d1: "has_depth_image (vkx_swap_chain s1)" by simp
  from t dv have o1: "extent (vkx_swap_chain s1) = \<lparr>width = 800, height = 600\<rparr>"
    "images_count (vkx_swap_chain s1) = 3"
    by simp_all
  from s1 cs d1 o1 w(1)
  have second: "has_depth_image (vkx_swap_chain example_depth_world)
   \<and> (\<exists>s' cs. vkx_recreate_swap_chain example_depth_driver example_depth_world = Inr s'
         \<and> has_depth_image (vkx_swap_chain s')
         \<and> calls s' = [VkDeviceWaitIdle, VkDestroyImageView 42, VkDestroyImage 40,
                        VkFreeMemory 41, VkDestroyImageView 14, VkDestroyImageView 15,
                        VkDestroySwapchainKHR 3,
                        VkCreateSwapchainKHR (swapchain_create_info example_depth_driver)] @ cs
         \<and> (\<forall>c\<in>set cs. creation_call c)
         \<and> extent (vkx_swap_chain s') = \<lparr>width = 800, height = 600\<rparr>
         \<and> images_count (vkx_swap_chain s') = 3)"
    by blast
  from first second show ?thesis by blast
qed

text \<open>
  The claim as first stated, that the three values depend on the surface capabilities
  only, fails: from the same prior state and under the same surface support, with the
  extent reported as 0xFFFFFFFF, a window of 800 by 600 gives that extent and a window of
  1024 by 768 gives the other, and a driver that creates four images instead of three
  gives the image count four.
\<close>

theorem recreate_observable_counterexample:
  "surface_support example_any_extent_driver_resized = surface_support example_any_extent_driver
   \<and> map_sum id (extent \<circ> vkx_swap_chain)
        (vkx_recreate_swap_chain example_any_extent_driver example_world)
       = Inr \<lparr>width = 800, height = 600\<rparr>
   \<and> map_sum id (extent \<circ> vkx_swap_chain)
        (vkx_recreate_swap_chain example_any_extent_driver_resized example_world)
       = Inr \<lparr>width = 1024, height = 768\<rparr>
   \<and> map_sum id (images_count \<circ> vkx_swap_chain)
        (vkx_recreate_swap_chain example_any_extent_driver example_world) = Inr 3
   \<and> map_sum id (images_count \<circ> vkx_swap_chain)
        (vkx_recreate_swap_chain example_any_extent_driver_resized example_world) = Inr 4"
  by (simp add: example_eval example_any_extent_driver_def
      example_any_extent_driver_resized_def)

section \<open>Cleanup of buffers and images\<close>

text \<open>
  C9. \<open>vkx_cleanup_buffer\<close> destroys the buffer and frees its memory, and leaves both
  handles null. \<open>vkx_cleanup_image\<close> destroys the image and frees its memory, destroys
  the view before them exactly when the view is not null, and leaves all three handles
  null.
\<close>

theorem cleanup_resets_handles:
  "buffer (fst (vkx_cleanup_buffer b)) = VK_NULL_HANDLE
   \<and> memory (fst (vkx_cleanup_buffer b)) = VK_NULL_HANDLE
   \<and> snd (vkx_cleanup_buffer b) = [VkDestroyBuffer (buffer b), VkFreeMemory (memory b)]
   \<and> image (fst (vkx_cleanup_image img)) = VK_NULL_HANDLE
   \<and> image_memory (fst (vkx_cleanup_image img)) = VK_NULL_HANDLE
   \<and> view (fst (vkx_cleanup_image img)) = VK_NULL_HANDLE
   \<and> snd (vkx_cleanup_image img)
       = (if view img = VK_NULL_HANDLE then [] else [VkDestroyImageView (view img)])
         @ [VkDestroyImage (image img), VkFreeMemory (image_memory img)]"
  by (simp add: vkx_cleanup_buffer_def vkx_cleanup_image_def)

theorem cleanup_resets_handles_witness:
  "fst (vkx_cleanup_buffer \<lparr>buffer = 5, memory = 6\<rparr>) = \<lparr>buffer = 0, memory = 0\<rparr>
   \<and> snd (vkx_cleanup_buffer \<lparr>buffer = 5, memory = 6\<rparr>) = [VkDestroyBuffer 5, VkFreeMemory 6]
   \<and> fst (vkx_cleanup_image \<lparr>image = 7, image_memory = 8, view = 9\<rparr>)
       = \<lparr>image = 0, image_memory = 0, view = 0\<rparr>
   \<and> snd (vkx_cleanup_image \<lparr>image = 7, image_memory = 8, view = 9\<rparr>)
       = [VkDestroyImageView 9, VkDestroyImage 7, VkFreeMemory 8]
   \<and> snd (vkx_cleanup_image \<lparr>image = 7, image_memory = 8, view = 0\<rparr>)
       = [VkDestroyImage 7, VkFreeMemory 8]"
  using cleanup_resets_handles [of "\<lparr>buffer = 5, memory = 6\<rparr>"
      "\<lparr>image = 7, image_memory = 8, view = 9\<rparr>"]
    cleanup_resets_handles [of "\<lparr>buffer = 5, memory = 6\<rparr>"
      "\<lparr>image = 7, image_memory = 8, view = 0\<rparr>"]
  by (simp add: VK_NULL_HANDLE_def vkx_cleanup_buffer_def vkx_cleanup_image_def)

section \<open>Supported layout transitions\<close>

text \<open>
  C10. \<open>vkx_transition_image_layout\<close> yields a barrier exactly for the eight pairs of
  \<open>supported_transitions\<close>; for every other pair, and only then, it ends in the fatal
  exit "Unsupported layout transition", which is the only way it fails.
\<close>

theorem layout_transition_supported_iff:
  "((\<exists>barrier. vkx_transition_image_layout fmt old_layout new_layout = Inr barrier)
      \<longleftrightarrow> (old_layout, new_layout) \<in> supported_transitions)
   \<and> (vkx_transition_image_layout fmt old_layout new_layout
        = Inl (Unsupported_layout_transition old_layout new_layout)
      \<longleftrightarrow> (old_layout, new_layout) \<notin> supported_transitions)
   \<and> (\<forall>f. vkx_transition_image_layout fmt old_layout new_layout = Inl f
        \<longrightarrow> f = Unsupported_layout_transition old_layout new_layout)
   \<and> card supported_transitions = 8"
proof (intro conjI)
  show "(\<exists>barrier. vkx_transition_image_layout fmt old_layout new_layout = Inr barrier)
      \<longleftrightarrow> (old_layout, new_layout) \<in> supported_transitions"
    by (simp add: vkx_transition_image_layout_def supported_transitions_def Let_def)
  show "vkx_transition_image_layout fmt old_layout new_layout
        = Inl (Unsupported_layout_transition old_layout new_layout)
      \<longleftrightarrow> (old_layout, new_layout) \<notin> supported_transitions"
    by (simp add: vkx_transition_image_layout_def supported_transitions_def Let_def)
  show "\<forall>f. vkx_transition_image_layout fmt old_layout new_layout = Inl f
        \<longrightarrow> f = Unsupported_layout_transition old_layout new_layout"
    by (auto simp: vkx_transition_image_layout_def Let_def split: if_splits)
  show "card supported_transitions = 8"
    by (simp add: supported_transitions_def)
qed

theorem layout_transition_supported_iff_witness:
  "(VK_IMAGE_LAYOUT_PRESENT_SRC_KHR, VK_IMAGE_LAYOUT_COLOR_ATTACHMENT_OPTIMAL)
     \<in> supported_transitions
   \<and> (\<exists>barrier. vkx_transition_image_layout VK_FORMAT_B8G8R8A8_SRGB
       VK_IMAGE_LAYOUT_PRESENT_SRC_KHR VK_IMAGE_LAYOUT_COLOR_ATTACHMENT_OPTIMAL = Inr barrier)
   \<and> (VK_IMAGE_LAYOUT_PRESENT_SRC_KHR, VK_IMAGE_LAYOUT_GENERAL) \<notin> supported_transitions
   \<and> vkx_transition_image_layout VK_FORMAT_B8G8R8A8_SRGB
       VK_IMAGE_LAYOUT_PRESENT_SRC_KHR VK_IMAGE_LAYOUT_GENERAL
     = Inl (Unsupported_layout_transition VK_IMAGE_LAYOUT_PRESENT_SRC_KHR VK_IMAGE_LAYOUT_GENERAL)"
proof -
  have a: "(VK_IMAGE_LAYOUT_PRESENT_SRC_KHR, VK_IMAGE_LAYOUT_COLOR_ATTACHMENT_OPTIMAL)
     \<in> supported_transitions"
    and b: "(VK_IMAGE_LAYOUT_PRESENT_SRC_KHR, VK_IMAGE_LAYOUT_GENERAL) \<notin> supported_transitions"
    by (simp_all add: supported_transitions_def)
  from layout_transition_supported_iff [of VK_FORMAT_B8G8R8A8_SRGB
      VK_IMAGE_LAYOUT_PRESENT_SRC_KHR VK_IMAGE_LAYOUT_COLOR_ATTACHMENT_OPTIMAL]
    layout_transition_supported_iff [of VK_FORMAT_B8G8R8A8_SRGB
      VK_IMAGE_LAYOUT_PRESENT_SRC_KHR VK_IMAGE_LAYOUT_GENERAL] a b
  show ?thesis by blast
qed

end
